theory Spec2Isabelle
  imports Main "HOL-Library.Finite_Map"
begin

section \<open>POSIX thread layer of ddsrt: a shallow embedding\<close>

text \<open>
  The development follows \<^verbatim>\<open>src/ddsrt/src/threads/posix/threads.c\<close>. The C file is
  one source for several operating systems, selected by the preprocessor; the build
  is a parameter of the model, so that each conditional section of the source is a
  branch on it. Calls into the C library and the kernel are not part of the source:
  the outcome of each such call is an input of the model (a field of a record of
  outcomes), and what the source does with the outcome is what the model computes.
\<close>

subsection \<open>Build configuration and return codes\<close>

datatype platform = Linux | QNX | Apple | Zephyr | VxWorks | Other_posix

text \<open>
  The constants below come from system headers or from the build system and are
  not fixed by the source: \<^verbatim>\<open>__GLIBC__\<close>, \<^verbatim>\<open>PTHREAD_STACK_MIN\<close> (absent on some
  systems), \<^verbatim>\<open>CPU_SETSIZE\<close>, \<^verbatim>\<open>CONFIG_MAX_PTHREAD_COUNT\<close>, \<^verbatim>\<open>CYCLONEDDS_THREAD_COUNT\<close>,
  \<^verbatim>\<open>CYCLONEDDS_THREAD_STACK_SIZE\<close>, \<^verbatim>\<open>EINVAL\<close>, \<^verbatim>\<open>ESRCH\<close>, \<^verbatim>\<open>SIGXCPU\<close>, \<^verbatim>\<open>SCHED_FIFO\<close>,
  \<^verbatim>\<open>SCHED_OTHER\<close>, and the widths in bits of \<^verbatim>\<open>uintptr_t\<close> and of \<^verbatim>\<open>unsigned long\<close>.
  The platforms that the source treats alike in the functions modelled here (FreeBSD,
  Solaris and the rest) are \<open>Other_posix\<close>.
\<close>

record build_config =
  platform :: platform
  glibc :: bool
  pthread_stack_min :: "nat option"
  cpu_setsize :: nat
  max_pthread_count :: nat
  thread_count :: nat
  thread_stack_size :: nat
  einval :: int
  esrch :: int
  sigxcpu :: nat
  sched_fifo :: int
  sched_other :: int
  ptr_bits :: nat
  long_bits :: nat

text \<open>
  Modelled from the spec: the error-code enumeration shared with the surrounding
  runtime (\<^verbatim>\<open>dds/ddsrt/retcode.h\<close> is not among the sources). Only the codes that
  the thread layer returns are listed. In C, \<^verbatim>\<open>dds_return_t\<close> is a signed 32-bit
  integer, \<^verbatim>\<open>DDS_RETCODE_OK\<close> is zero and every other code is negative.
\<close>

datatype dds_return_t =
    DDS_RETCODE_OK
  | DDS_RETCODE_ERROR
  | DDS_RETCODE_UNSUPPORTED
  | DDS_RETCODE_OUT_OF_RESOURCES
  | DDS_RETCODE_NOT_FOUND
  | DDS_RETCODE_NOT_ENOUGH_SPACE

text \<open>
  Ways in which a call does not return a value: a failed \<^verbatim>\<open>assert\<close> (the model is
  the build with assertions enabled), an access through a pointer that does not
  refer to an allocated object, and a wait for something that has not happened.
\<close>

datatype fault = Assert_failed | Bad_pointer | Blocked

subsection \<open>The cleanup stack\<close>

text \<open>
  A pointer is \<open>None\<close> for \<^verbatim>\<open>NULL\<close> and \<open>Some a\<close> for the address \<open>a\<close>. Routines are
  identified by their code address; calling one is recorded in \<open>invoked\<close>, with the
  argument it was given. What a routine does beyond that is outside the layer: the
  model takes it not to touch the cleanup stack of its thread. An argument
  (\<^verbatim>\<open>void *\<close>) is only stored and passed on: it is a number.
\<close>

type_synonym addr = nat
type_synonym fnptr = nat
type_synonym voidptr = nat

text \<open>
  Modelled from the spec: the cleanup record (\<^verbatim>\<open>thread_cleanup_t\<close> is declared in
  \<^verbatim>\<open>threads_priv.h\<close>, which is not among the sources): a routine, its argument and the
  link to the record pushed before; the field names are those the source uses.
\<close>

record thread_cleanup_t =
  prev :: "addr option"
  routine :: "fnptr option"
  arg :: voidptr

text \<open>
  The state one thread sees: its own identifier, whether \<^verbatim>\<open>thread_once\<close> has run
  (so that \<^verbatim>\<open>thread_cleanup_key\<close> exists), the value the thread has stored under the
  key, the allocated cleanup records, and the routine calls made so far.
\<close>

record tls =
  self :: nat
  key_created :: bool
  specific :: "addr option"
  heap :: "(addr, thread_cleanup_t) fmap"
  invoked :: "(fnptr \<times> voidptr) list"

text \<open>
  Outcomes of the library calls made by one call of the cleanup interface:
  \<^verbatim>\<open>pthread_key_create\<close>, \<^verbatim>\<open>ddsrt_calloc\<close> and \<^verbatim>\<open>pthread_setspecific\<close>.
\<close>

record cleanup_calls =
  key_create_err :: int
  calloc_result :: "addr option"
  setspecific_err :: int

definition thread_init_once :: "cleanup_calls \<Rightarrow> tls \<Rightarrow> fault + tls" where
  "thread_init_once e s =
     (if key_create_err e \<noteq> 0 then Inl Assert_failed
      else Inr (s\<lparr>key_created := True\<rparr>))"

definition thread_init :: "cleanup_calls \<Rightarrow> tls \<Rightarrow> fault + tls" where
  "thread_init e s = (if key_created s then Inr s else thread_init_once e s)"

text \<open>The Zephyr guard \<^verbatim>\<open>pthread_self() >= CONFIG_MAX_PTHREAD_COUNT\<close>.\<close>

definition not_a_pthread :: "build_config \<Rightarrow> tls \<Rightarrow> bool" where
  "not_a_pthread cfg s = (platform cfg = Zephyr \<and> max_pthread_count cfg \<le> self s)"

definition ddsrt_thread_cleanup_push ::
  "build_config \<Rightarrow> cleanup_calls \<Rightarrow> fnptr option \<Rightarrow> voidptr \<Rightarrow> tls
     \<Rightarrow> fault + (dds_return_t \<times> tls)" where
  "ddsrt_thread_cleanup_push cfg e rtn a s =
     (if rtn = None then Inl Assert_failed
      else if not_a_pthread cfg s then Inr (DDS_RETCODE_UNSUPPORTED, s)
      else
        (case thread_init e s of
           Inl f \<Rightarrow> Inl f
         | Inr s1 \<Rightarrow>
             (case calloc_result e of
                Some tail \<Rightarrow>
                  (let h = fmupd tail \<lparr>prev = specific s1, routine = rtn, arg = a\<rparr> (heap s1)
                   in if setspecific_err e \<noteq> 0 then
                        (if setspecific_err e = einval cfg then Inl Assert_failed
                         else Inr (DDS_RETCODE_OUT_OF_RESOURCES, s1\<lparr>heap := fmdrop tail h\<rparr>))
                      else Inr (DDS_RETCODE_OK, s1\<lparr>specific := Some tail, heap := h\<rparr>))
              | None \<Rightarrow> Inr (DDS_RETCODE_OUT_OF_RESOURCES, s1))))"

definition ddsrt_thread_cleanup_pop ::
  "build_config \<Rightarrow> cleanup_calls \<Rightarrow> int \<Rightarrow> tls \<Rightarrow> fault + (dds_return_t \<times> tls)" where
  "ddsrt_thread_cleanup_pop cfg e execute s =
     (if not_a_pthread cfg s then Inr (DDS_RETCODE_UNSUPPORTED, s)
      else
        (case thread_init e s of
           Inl f \<Rightarrow> Inl f
         | Inr s1 \<Rightarrow>
             (case specific s1 of
                Some tail \<Rightarrow>
                  (case fmlookup (heap s1) tail of
                     None \<Rightarrow> Inl Bad_pointer
                   | Some r \<Rightarrow>
                       if setspecific_err e \<noteq> 0 then
                         (if setspecific_err e = einval cfg then Inl Assert_failed
                          else Inr (DDS_RETCODE_OUT_OF_RESOURCES, s1))
                       else
                         (let s2 = s1\<lparr>specific := prev r\<rparr>
                          in if execute \<noteq> 0 then
                               (case routine r of
                                  None \<Rightarrow> Inl Bad_pointer
                                | Some f \<Rightarrow>
                                    Inr (DDS_RETCODE_OK,
                                         s2\<lparr>invoked := invoked s2 @ [(f, arg r)],
                                            heap := fmdrop tail (heap s2)\<rparr>))
                             else Inr (DDS_RETCODE_OK, s2\<lparr>heap := fmdrop tail (heap s2)\<rparr>)))
              | None \<Rightarrow> Inr (DDS_RETCODE_OK, s1))))"

text \<open>
  The unwinding loop. Each round frees the record it has just run, so the number of
  allocated records is a measure: the function is total. Reading a record that is
  not allocated is the fault \<open>Bad_pointer\<close>.
\<close>

function thread_cleanup_fini :: "addr option \<Rightarrow> tls \<Rightarrow> fault + tls" where
  "thread_cleanup_fini tail s =
     (case tail of
        None \<Rightarrow> Inr s
      | Some a \<Rightarrow>
          (case fmlookup (heap s) a of
             None \<Rightarrow> Inl Bad_pointer
           | Some r \<Rightarrow>
               (case routine r of
                  None \<Rightarrow> Inl Assert_failed
                | Some f \<Rightarrow>
                    thread_cleanup_fini (prev r)
                      (s\<lparr>invoked := invoked s @ [(f, arg r)],
                         heap := fmdrop a (heap s)\<rparr>))))"
  by pat_completeness auto
termination
proof (relation "measure (\<lambda>(tail, s). fcard (fmdom (heap s)))")
  show "wf (measure (\<lambda>(tail, s). fcard (fmdom (heap s))))"
    by simp
next
  fix tail :: "addr option" and s :: tls and a r f
  assume "fmlookup (heap s) a = Some r"
  then have "a |\<in>| fmdom (heap s)"
    by (rule fmdomI)
  then have "fcard (fmdom (heap s) |-| {|a|}) < fcard (fmdom (heap s))"
    by (rule fcard_fminus1_less)
  then show "((prev r, s\<lparr>invoked := invoked s @ [(f, arg r)], heap := fmdrop a (heap s)\<rparr>),
              (tail, s)) \<in> measure (\<lambda>(tail, s). fcard (fmdom (heap s)))"
    by simp
qed

declare thread_cleanup_fini.simps [simp del]

text \<open>
  \<^verbatim>\<open>ddsrt_thread_fini\<close> ignores the result of \<^verbatim>\<open>pthread_setspecific\<close>: when that call
  fails the stored value stays as it was.
\<close>

definition ddsrt_thread_init :: "cleanup_calls \<Rightarrow> tls \<Rightarrow> fault + tls" where
  "ddsrt_thread_init e s = thread_init e s"

definition ddsrt_thread_fini :: "cleanup_calls \<Rightarrow> tls \<Rightarrow> fault + tls" where
  "ddsrt_thread_fini e s =
     (case thread_init e s of
        Inl f \<Rightarrow> Inl f
      | Inr s1 \<Rightarrow>
          (case specific s1 of
             Some tail \<Rightarrow>
               (case thread_cleanup_fini (Some tail) s1 of
                  Inl f \<Rightarrow> Inl f
                | Inr s2 \<Rightarrow>
                    Inr (if setspecific_err e = 0 then s2\<lparr>specific := None\<rparr> else s2))
           | None \<Rightarrow> Inr s1))"

text \<open>
  What the threads library does with the key at thread exit (POSIX, and the comment
  at the end of \<^verbatim>\<open>thread_cleanup_fini\<close>): when the key exists and the thread's value is
  not \<^verbatim>\<open>NULL\<close>, the value is set to \<^verbatim>\<open>NULL\<close> and the destructor registered by
  \<^verbatim>\<open>thread_init_once\<close> is called with the old value.
\<close>

definition thread_exit_destructor :: "tls \<Rightarrow> fault + tls" where
  "thread_exit_destructor s =
     (if key_created s \<and> specific s \<noteq> None
      then thread_cleanup_fini (specific s) (s\<lparr>specific := None\<rparr>)
      else Inr s)"

text \<open>
  The abstraction of the linked records: \<open>stack_at h p cs\<close> says that, in the heap \<open>h\<close>,
  the pointer \<open>p\<close> is the head of a chain whose records sit at the addresses, and hold
  the routines and arguments, listed in \<open>cs\<close>, most recently pushed first, and that
  the chain ends in \<^verbatim>\<open>NULL\<close>.
\<close>

fun stack_at ::
  "(addr, thread_cleanup_t) fmap \<Rightarrow> addr option \<Rightarrow> (addr \<times> fnptr \<times> voidptr) list \<Rightarrow> bool" where
  "stack_at h p [] = (p = None)"
| "stack_at h p ((a, f, x) # cs) =
     (p = Some a \<and>
      (case fmlookup h a of
         None \<Rightarrow> False
       | Some r \<Rightarrow> routine r = Some f \<and> arg r = x \<and> stack_at h (prev r) cs))"

subsection \<open>Thread attributes\<close>

text \<open>
  Modelled from the spec: the attribute descriptor (its declaration, in
  \<^verbatim>\<open>dds/ddsrt/threads.h\<close>, is not among the sources; \<^verbatim>\<open>ddsrt_threadattr_init\<close> in
  \<^verbatim>\<open>src/ddsrt/src/threads.c\<close> names the fields). The C structure holds the affinity
  set as a pointer \<^verbatim>\<open>schedAffinitySet\<close> and a count \<^verbatim>\<open>schedAffinityN\<close>; here it is the list
  of the \<^verbatim>\<open>schedAffinityN\<close> entries. \<^verbatim>\<open>schedPriority\<close> is an \<^verbatim>\<open>int32_t\<close> that the source only
  compares and passes on, \<^verbatim>\<open>stackSize\<close> a \<^verbatim>\<open>uint32_t\<close>.
\<close>

datatype ddsrt_sched_t = DDSRT_SCHED_DEFAULT | DDSRT_SCHED_REALTIME | DDSRT_SCHED_TIMESHARE

record ddsrt_threadattr_t =
  schedClass :: ddsrt_sched_t
  schedPriority :: int
  schedAffinitySet :: "nat list"
  stackSize :: nat

definition ddsrt_threadattr_init :: ddsrt_threadattr_t where
  "ddsrt_threadattr_init =
     \<lparr>schedClass = DDSRT_SCHED_DEFAULT, schedPriority = 0, schedAffinitySet = [], stackSize = 0\<rparr>"

subsection \<open>Creation, the trampoline and join\<close>

text \<open>
  The context handed to the new thread. (The fields are \<^verbatim>\<open>name\<close>, \<^verbatim>\<open>routine\<close> and \<^verbatim>\<open>arg\<close>
  in C; the prefix keeps them apart from those of the cleanup record.)
\<close>

record thread_context_t =
  ctx_name :: string
  ctx_routine :: "fnptr option"
  ctx_arg :: voidptr

text \<open>
  What a call does to the world outside the source is recorded as a trace of events:
  the library calls, in order, with the arguments that matter, and the messages given
  to the diagnostic sink (\<^verbatim>\<open>DDS_ERROR\<close>, \<^verbatim>\<open>DDS_WARNING\<close>; the text is the constant part of
  the format string). A signal set is the set of signal numbers in it.
\<close>

datatype event =
    Pthread_attr_init
  | Pthread_attr_setname string
  | Pthread_attr_setscope
  | Pthread_attr_setdetachstate
  | Pthread_attr_setstacksize nat
  | Pthread_attr_setstack nat nat
  | Pthread_getschedparam
  | Pthread_attr_getschedparam
  | Pthread_attr_getschedpolicy
  | Pthread_attr_setschedpolicy int
  | Pthread_attr_setschedparam int
  | Pthread_attr_setinheritsched
  | Pthread_attr_setaffinity_np "nat set"
  | Sigprocmask_block "nat set"
  | Sigprocmask_setmask "nat set"
  | Pthread_create addr
  | Pthread_attr_destroy
  | Pthread_join nat
  | Pthread_setname string
  | Call_routine fnptr voidptr
  | DDS_ERROR string
  | DDS_WARNING string

text \<open>
  A thread made by \<^verbatim>\<open>pthread_create\<close> is \<open>Runnable\<close>, with the address of its context
  and the signal mask it inherited from its creator, until its start routine has
  returned; from then on it is \<open>Exited\<close> with the value returned, until it is joined.
\<close>

datatype thread_state = Runnable addr "nat set" | Exited nat

text \<open>
  The process as the creating thread sees it: its own signal mask, the Zephyr stack
  counter \<^verbatim>\<open>currThrIdx\<close>, the allocated contexts, the joinable threads, and the trace.
\<close>

record proc =
  sigmask :: "nat set"
  currThrIdx :: nat
  contexts :: "(addr, thread_context_t) fmap"
  threads :: "(nat, thread_state) fmap"
  trace :: "event list"

text \<open>
  Outcomes of the library calls of one \<^verbatim>\<open>ddsrt_thread_create\<close>: the error code of each
  call, what the queries return (the creator's policy and priority from
  \<^verbatim>\<open>pthread_getschedparam\<close>, those of the attribute object on Zephyr, the priority range
  of a policy), the address given by \<^verbatim>\<open>ddsrt_malloc\<close> (which does not return when memory
  is exhausted) and the identifier of the new thread.
\<close>

record create_calls =
  attr_init_err :: int
  setscope_err :: int
  setdetachstate_err :: int
  setstacksize_err :: int
  setstack_err :: int
  getschedparam_err :: int
  self_policy :: int
  self_priority :: int
  attr_getschedparam_err :: int
  attr_priority :: int
  attr_getschedpolicy_err :: int
  attr_policy :: int
  setschedpolicy_err :: int
  priority_min :: "int \<Rightarrow> int"
  priority_max :: "int \<Rightarrow> int"
  setschedparam_err :: int
  setinheritsched_err :: int
  setaffinity_err :: int
  malloc_result :: addr
  create_err :: int
  new_thread :: nat

definition emit :: "event \<Rightarrow> proc \<Rightarrow> proc" where
  "emit ev s = s\<lparr>trace := trace s @ [ev]\<rparr>"

text \<open>
  The outcome of a section of \<^verbatim>\<open>ddsrt_thread_create\<close>: it stops the program, it jumps
  to the label \<^verbatim>\<open>err\<close>, or control reaches the end of the section.
\<close>

datatype 'a step = Abort fault | Goto_err proc | Next 'a

definition bind_step :: "'a step \<Rightarrow> ('a \<Rightarrow> 'b step) \<Rightarrow> 'b step" where
  "bind_step m f = (case m of Abort x \<Rightarrow> Abort x | Goto_err s \<Rightarrow> Goto_err s | Next a \<Rightarrow> f a)"

text \<open>The stack size section (the size is the one after the Zephyr override).\<close>

definition create_stack :: "build_config \<Rightarrow> create_calls \<Rightarrow> nat \<Rightarrow> proc \<Rightarrow> proc step" where
  "create_stack cfg e sz s =
     (if sz \<noteq> 0 then
        (let sz' = (case pthread_stack_min cfg of
                      Some m \<Rightarrow> (if sz < m then m else sz)
                    | None \<Rightarrow> sz)
         in if platform cfg \<noteq> Zephyr then
              (let s1 = emit (Pthread_attr_setstacksize sz') s
               in if setstacksize_err e \<noteq> 0
                  then Goto_err (emit (DDS_ERROR ''pthread_attr_setstacksize failed'') s1)
                  else Next s1)
            else if thread_count cfg \<le> currThrIdx s
              then Goto_err (emit (DDS_ERROR ''CYCLONEDDS_THREAD_COUNT exceeded'') s)
            else
              (let s1 = emit (Pthread_attr_setstack (currThrIdx s) sz') s
               in if setstack_err e \<noteq> 0
                  then Goto_err (emit (DDS_ERROR ''pthread_attr_setstack failed'') s1)
                  else Next (s1\<lparr>currThrIdx := currThrIdx s1 + 1\<rparr>)))
      else Next s)"

text \<open>
  The scheduling section. First the query that initialises \<^verbatim>\<open>policy\<close> and
  \<^verbatim>\<open>sched_param\<close>: the creator's own values, or on Zephyr those of the attribute object.
\<close>

definition sched_query :: "build_config \<Rightarrow> create_calls \<Rightarrow> proc \<Rightarrow> (int \<times> int \<times> proc) step" where
  "sched_query cfg e s =
     (if platform cfg \<noteq> Zephyr then
        (let s1 = emit Pthread_getschedparam s
         in if getschedparam_err e \<noteq> 0
            then Goto_err (emit (DDS_ERROR ''pthread_getschedparam(self) failed'') s1)
            else Next (self_policy e, self_priority e, s1))
      else
        (let s1 = emit Pthread_attr_getschedparam s
         in if attr_getschedparam_err e \<noteq> 0
            then Goto_err (emit (DDS_ERROR ''pthread_attr_getschedparam() failed'') s1)
            else
              (let s2 = emit Pthread_attr_getschedpolicy s1
               in if attr_getschedpolicy_err e \<noteq> 0
                  then Goto_err (emit (DDS_ERROR ''pthread_attr_getschedpolicy() failed'') s2)
                  else Next (attr_policy e, attr_priority e, s2))))"

text \<open>
  After the \<^verbatim>\<open>switch\<close>: the policy is set when a class was given; the requested
  priority is used when it lies in the range of the policy, otherwise a warning is
  logged and \<^verbatim>\<open>sched_param\<close> keeps the priority that the query put there.
\<close>

definition sched_apply ::
  "build_config \<Rightarrow> create_calls \<Rightarrow> ddsrt_threadattr_t \<Rightarrow> int \<Rightarrow> int \<Rightarrow> proc \<Rightarrow> proc step" where
  "sched_apply cfg e tattr policy prio0 s =
     (let s1 = (if schedClass tattr \<noteq> DDSRT_SCHED_DEFAULT
                then emit (Pthread_attr_setschedpolicy policy) s else s)
      in if schedClass tattr \<noteq> DDSRT_SCHED_DEFAULT \<and> setschedpolicy_err e \<noteq> 0
         then Goto_err (emit (DDS_ERROR ''pthread_attr_setschedpolicy failed'') s1)
         else
           (let in_range = (priority_min e policy \<le> schedPriority tattr \<and>
                            schedPriority tattr \<le> priority_max e policy);
                prio = (if in_range then schedPriority tattr else prio0);
                s2 = (if in_range then s1
                      else emit (DDS_WARNING
                        ''requested thread priority invalid for policy, fall-back to default'') s1);
                s3 = emit (Pthread_attr_setschedparam prio) s2
            in if setschedparam_err e \<noteq> 0
               then Goto_err (emit (DDS_ERROR ''pthread_attr_setschedparam failed'') s3)
               else if platform cfg \<noteq> Zephyr then
                 (let s4 = emit Pthread_attr_setinheritsched s3
                  in if setinheritsched_err e \<noteq> 0
                     then Goto_err (emit (DDS_ERROR ''pthread_attr_setinheritsched(EXPLICIT) failed'') s4)
                     else Next s4)
               else Next s3))"

definition create_sched ::
  "build_config \<Rightarrow> create_calls \<Rightarrow> ddsrt_threadattr_t \<Rightarrow> proc \<Rightarrow> proc step" where
  "create_sched cfg e tattr s =
     (if platform cfg \<noteq> Zephyr \<and> schedClass tattr = DDSRT_SCHED_DEFAULT then
        (if schedPriority tattr \<noteq> 0
         then Goto_err (emit (DDS_ERROR
                ''schedClass DEFAULT but priority != 0 is unsupported'') s)
         else Next s)
      else
        bind_step (sched_query cfg e s) (\<lambda>(policy0, prio0, s1).
          (case schedClass tattr of
             DDSRT_SCHED_DEFAULT \<Rightarrow>
               (if platform cfg \<noteq> Zephyr then Abort Assert_failed
                else sched_apply cfg e tattr policy0 prio0 s1)
           | DDSRT_SCHED_REALTIME \<Rightarrow> sched_apply cfg e tattr (sched_fifo cfg) prio0 s1
           | DDSRT_SCHED_TIMESHARE \<Rightarrow> sched_apply cfg e tattr (sched_other cfg) prio0 s1)))"

text \<open>
  The affinity section. The loop fills the CPU set and leaves for \<^verbatim>\<open>err\<close> at the first
  identifier that is not below \<^verbatim>\<open>CPU_SETSIZE\<close>. (When \<^verbatim>\<open>pthread_attr_setaffinity_np\<close> fails
  the source logs the text of the \<^verbatim>\<open>pthread_attr_setinheritsched\<close> message.)
\<close>

fun cpu_set_loop :: "nat \<Rightarrow> nat list \<Rightarrow> nat set \<Rightarrow> nat + nat set" where
  "cpu_set_loop setsize [] cpuset = Inr cpuset"
| "cpu_set_loop setsize (c # cs) cpuset =
     (if setsize \<le> c then Inl c else cpu_set_loop setsize cs (insert c cpuset))"

definition create_affinity ::
  "build_config \<Rightarrow> create_calls \<Rightarrow> ddsrt_threadattr_t \<Rightarrow> proc \<Rightarrow> proc step" where
  "create_affinity cfg e tattr s =
     (if 0 < length (schedAffinitySet tattr) then
        (if platform cfg = Linux \<and> glibc cfg then
           (case cpu_set_loop (cpu_setsize cfg) (schedAffinitySet tattr) {} of
              Inl c \<Rightarrow> Goto_err (emit (DDS_ERROR ''CPU id out of range when setting affinity'') s)
            | Inr cpuset \<Rightarrow>
                (let s1 = emit (Pthread_attr_setaffinity_np cpuset) s
                 in if setaffinity_err e \<noteq> 0
                    then Goto_err (emit (DDS_ERROR ''pthread_attr_setinheritsched(EXPLICIT) failed'') s1)
                    else Next s1))
         else Goto_err s)
      else Next s)"

text \<open>From \<^verbatim>\<open>pthread_attr_init\<close> (done by the caller below) to the end of the affinity section.\<close>

definition create_configure ::
  "build_config \<Rightarrow> create_calls \<Rightarrow> string \<Rightarrow> ddsrt_threadattr_t \<Rightarrow> proc \<Rightarrow> proc step" where
  "create_configure cfg e nm tattr s =
     (let s1 = (if platform cfg = VxWorks then emit (Pthread_attr_setname nm) s else s);
          s2 = (if platform cfg \<noteq> Zephyr then emit Pthread_attr_setscope s1 else s1)
      in if platform cfg \<noteq> Zephyr \<and> setscope_err e \<noteq> 0 then Goto_err s2
         else
           (let s3 = emit Pthread_attr_setdetachstate s2
            in if setdetachstate_err e \<noteq> 0 then Goto_err s3
               else
                 bind_step (create_stack cfg e (stackSize tattr) s3) (\<lambda>s4.
                 bind_step (create_sched cfg e tattr s4) (\<lambda>s5.
                 create_affinity cfg e tattr s5))))"

text \<open>
  The context is built and the thread is started. Outside Zephyr the creator blocks
  every signal but \<^verbatim>\<open>SIGXCPU\<close> before \<^verbatim>\<open>pthread_create\<close>, so that the new thread starts
  with that mask, and sets its old mask again after a successful \<^verbatim>\<open>pthread_create\<close>;
  the failure path goes to \<^verbatim>\<open>err_create\<close>, which frees the context and destroys the
  attribute object. The set made by \<^verbatim>\<open>sigfillset\<close> and \<^verbatim>\<open>sigdelset\<close> is taken to be every
  signal number but \<^verbatim>\<open>SIGXCPU\<close>, and \<^verbatim>\<open>sigprocmask\<close> to block all of it; a real system has
  finitely many signals and leaves out those that cannot be blocked.
\<close>

definition create_spawn ::
  "build_config \<Rightarrow> create_calls \<Rightarrow> string \<Rightarrow> fnptr option \<Rightarrow> voidptr \<Rightarrow> proc
     \<Rightarrow> dds_return_t \<times> nat option \<times> proc" where
  "create_spawn cfg e nm start_routine a s =
     (let ctx = malloc_result e;
          s1 = s\<lparr>contexts :=
                   fmupd ctx \<lparr>ctx_name = nm, ctx_routine = start_routine, ctx_arg = a\<rparr>
                     (contexts s)\<rparr>;
          sigset = UNIV - {sigxcpu cfg};
          oset = sigmask s1;
          s2 = (if platform cfg \<noteq> Zephyr
                then emit (Sigprocmask_block sigset) (s1\<lparr>sigmask := sigmask s1 \<union> sigset\<rparr>)
                else s1);
          s3 = emit (Pthread_create ctx) s2
      in if create_err e \<noteq> 0 then
           (let s4 = emit (DDS_ERROR ''pthread_create failed'') s3;
                s5 = s4\<lparr>contexts := fmdrop ctx (contexts s4)\<rparr>
            in (DDS_RETCODE_ERROR, None, emit Pthread_attr_destroy s5))
         else
           (let s4 = s3\<lparr>threads :=
                         fmupd (new_thread e) (Runnable ctx (sigmask s3)) (threads s3)\<rparr>;
                s5 = (if platform cfg \<noteq> Zephyr
                      then emit (Sigprocmask_setmask oset) (s4\<lparr>sigmask := oset\<rparr>)
                      else s4)
            in (DDS_RETCODE_OK, Some (new_thread e), emit Pthread_attr_destroy s5)))"

text \<open>
  \<^verbatim>\<open>ddsrt_thread_create\<close>. The pointers \<^verbatim>\<open>thread\<close>, \<^verbatim>\<open>name\<close> and \<^verbatim>\<open>attr\<close> that the source
  asserts to be non-null are values here; the second component of the result is what
  has been written to \<^verbatim>\<open>thread->v\<close>.
\<close>

definition ddsrt_thread_create ::
  "build_config \<Rightarrow> create_calls \<Rightarrow> string \<Rightarrow> ddsrt_threadattr_t \<Rightarrow> fnptr option \<Rightarrow> voidptr
     \<Rightarrow> proc \<Rightarrow> fault + (dds_return_t \<times> nat option \<times> proc)" where
  "ddsrt_thread_create cfg e nm attr start_routine a s =
     (if start_routine = None then Inl Assert_failed
      else if platform cfg = Zephyr \<and> stackSize attr \<noteq> 0 \<and>
              thread_stack_size cfg < stackSize attr
        then Inr (DDS_RETCODE_ERROR, None,
                  emit (DDS_ERROR ''requested stack size exceeds maximum size'') s)
      else
        (let tattr = (if platform cfg = Zephyr
                      then attr\<lparr>stackSize := thread_stack_size cfg\<rparr> else attr);
             s0 = emit Pthread_attr_init s
         in if attr_init_err e \<noteq> 0 then Inr (DDS_RETCODE_ERROR, None, s0)
            else
              (case create_configure cfg e nm tattr s0 of
                 Abort f \<Rightarrow> Inl f
               | Goto_err s1 \<Rightarrow> Inr (DDS_RETCODE_ERROR, None, emit Pthread_attr_destroy s1)
               | Next s1 \<Rightarrow> Inr (create_spawn cfg e nm start_routine a s1))))"

text \<open>
  \<^verbatim>\<open>ddsrt_thread_setname\<close>: on Linux the name is cut to \<^verbatim>\<open>MAXTHREADNAMESIZE\<close> (15) bytes
  before it is handed to the library; elsewhere it is handed over as it is.
\<close>

definition ddsrt_thread_setname :: "build_config \<Rightarrow> string \<Rightarrow> proc \<Rightarrow> proc" where
  "ddsrt_thread_setname cfg nm s =
     emit (Pthread_setname (if platform cfg = Linux then take 15 nm else nm)) s"

text \<open>
  The trampoline, run by the new thread. The user routine is outside the source: what
  the routine at a code address returns when it is called with an argument is given
  by \<open>rt\<close>, and the call is recorded in the trace. The value returned (a \<^verbatim>\<open>uint32_t\<close> by
  the declared type of thread routines, which the model does not rely on) is held in
  a \<^verbatim>\<open>uintptr_t\<close> and returned as a pointer. (The VxWorks priority change before the
  return does not touch the value and is left out.)
\<close>

definition os_startRoutineWrapper ::
  "build_config \<Rightarrow> (fnptr \<Rightarrow> voidptr \<Rightarrow> nat) \<Rightarrow> addr \<Rightarrow> proc \<Rightarrow> fault + (nat \<times> proc)" where
  "os_startRoutineWrapper cfg rt threadContext s =
     (case fmlookup (contexts s) threadContext of
        None \<Rightarrow> Inl Bad_pointer
      | Some context \<Rightarrow>
          (case ctx_routine context of
             None \<Rightarrow> Inl Bad_pointer
           | Some f \<Rightarrow>
               (let s1 = ddsrt_thread_setname cfg (ctx_name context) s;
                    s2 = emit (Call_routine f (ctx_arg context)) s1;
                    resultValue = rt f (ctx_arg context) mod 2 ^ ptr_bits cfg;
                    s3 = s2\<lparr>contexts := fmdrop threadContext (contexts s2)\<rparr>
                in Inr (resultValue, s3))))"

text \<open>
  The contract of the threads library (POSIX), as far as creation and join need it:
  a runnable thread runs the start routine it was created with, here the trampoline
  on its context, and exits with the value returned; \<^verbatim>\<open>pthread_join\<close> on an exited
  thread gives that value and retires the thread, on a thread that is still running
  it waits, and on anything else it reports an error.
\<close>

definition thread_run ::
  "build_config \<Rightarrow> (fnptr \<Rightarrow> voidptr \<Rightarrow> nat) \<Rightarrow> nat \<Rightarrow> proc \<Rightarrow> fault + proc" where
  "thread_run cfg rt t s =
     (case fmlookup (threads s) t of
        Some (Runnable ctx m) \<Rightarrow>
          (case os_startRoutineWrapper cfg rt ctx s of
             Inl f \<Rightarrow> Inl f
           | Inr (r, s1) \<Rightarrow> Inr (s1\<lparr>threads := fmupd t (Exited r) (threads s1)\<rparr>))
      | Some (Exited r) \<Rightarrow> Inr s
      | None \<Rightarrow> Inr s)"

definition pthread_join :: "build_config \<Rightarrow> nat \<Rightarrow> proc \<Rightarrow> (int \<times> nat \<times> proc) option" where
  "pthread_join cfg t s =
     (case fmlookup (threads s) t of
        Some (Exited r) \<Rightarrow> Some (0, r, s\<lparr>threads := fmdrop t (threads s)\<rparr>)
      | Some (Runnable ctx m) \<Rightarrow> None
      | None \<Rightarrow> Some (esrch cfg, 0, s))"

text \<open>
  \<^verbatim>\<open>ddsrt_thread_join\<close>; \<open>want\<close> says that \<^verbatim>\<open>thread_result\<close> is not \<^verbatim>\<open>NULL\<close>, and the second
  component of the result is what has been stored there: the pointer converted to
  \<^verbatim>\<open>uintptr_t\<close> and then to \<^verbatim>\<open>uint32_t\<close>.
\<close>

definition ddsrt_thread_join ::
  "build_config \<Rightarrow> nat \<Rightarrow> bool \<Rightarrow> proc \<Rightarrow> fault + (dds_return_t \<times> nat option \<times> proc)" where
  "ddsrt_thread_join cfg thread want s =
     (if platform cfg \<noteq> Zephyr \<and> thread = 0 then Inl Assert_failed
      else
        (case pthread_join cfg thread (emit (Pthread_join thread) s) of
           None \<Rightarrow> Inl Blocked
         | Some (err, vthread_result, s1) \<Rightarrow>
             if err \<noteq> 0
             then Inr (DDS_RETCODE_ERROR, None, emit (DDS_ERROR ''pthread_join failed'') s1)
             else Inr (DDS_RETCODE_OK,
                       (if want then Some (vthread_result mod 2 ^ 32) else None), s1)))"

subsection \<open>Decimal text, as \<^verbatim>\<open>snprintf\<close> writes it\<close>

text \<open>\<open>digit_char\<close> is only applied to numbers below ten.\<close>

definition digit_char :: "nat \<Rightarrow> char" where
  "digit_char d = ''0123456789'' ! d"

fun dec :: "nat \<Rightarrow> string" where
  "dec n = (if n < 10 then [digit_char n] else dec (n div 10) @ [digit_char (n mod 10)])"

declare dec.simps [simp del]

definition dec_int :: "int \<Rightarrow> string" where
  "dec_int i = (if i < 0 then CHR ''-'' # dec (nat (- i)) else dec (nat i))"

subsection \<open>Enumeration of the threads of the process\<close>

text \<open>
  The caller's buffer \<^verbatim>\<open>tids\<close> and its capacity \<^verbatim>\<open>size\<close> are one list of length \<^verbatim>\<open>size\<close>.
  The result of \<^verbatim>\<open>ddsrt_thread_list\<close> is an integer in C, negative for an error code and
  otherwise a count: \<open>Inl\<close> of the code or \<open>Inr\<close> of the count. (The count is a 32-bit
  signed integer in the source; the model does not bound it.)
\<close>

text \<open>
  Linux. The test for the directory entries \<^verbatim>\<open>.\<close> and \<^verbatim>\<open>..\<close>, character by character as
  in the source; a name is the text before its terminating zero byte.
\<close>

definition is_dot_entry :: "string \<Rightarrow> bool" where
  "is_dot_entry d_name =
     (case d_name of
        [] \<Rightarrow> False
      | c0 # r0 \<Rightarrow>
          c0 = CHR ''.'' \<and>
          (case r0 of
             [] \<Rightarrow> True
           | c1 # r1 \<Rightarrow> c1 = CHR ''.'' \<and> r1 = []))"

text \<open>
  \<^verbatim>\<open>sscanf (d_name, "%ld%n", &tid, &pos)\<close>: white space is skipped, an optional sign and
  then digits are read; without a digit nothing is converted (\<open>None\<close>); otherwise the
  result is the number read and the count of characters consumed. A number that does
  not fit a \<^verbatim>\<open>long\<close> is replaced by the nearest one that does (\<^verbatim>\<open>LONG_MIN\<close> or \<^verbatim>\<open>LONG_MAX\<close>).
\<close>

definition is_space :: "char \<Rightarrow> bool" where
  "is_space c = (c = CHR '' '' \<or> (9 \<le> (of_char c :: nat) \<and> (of_char c :: nat) \<le> 13))"

definition is_digit :: "char \<Rightarrow> bool" where
  "is_digit c = (48 \<le> (of_char c :: nat) \<and> (of_char c :: nat) \<le> 57)"

definition digits_value :: "string \<Rightarrow> nat" where
  "digits_value ds = foldl (\<lambda>acc c. 10 * acc + (of_char c - 48)) 0 ds"

definition long_saturate :: "build_config \<Rightarrow> int \<Rightarrow> int" where
  "long_saturate cfg v =
     max (- (2 ^ (long_bits cfg - 1))) (min (2 ^ (long_bits cfg - 1) - 1) v)"

definition scan_ld :: "build_config \<Rightarrow> string \<Rightarrow> (int \<times> nat) option" where
  "scan_ld cfg str =
     (let ws = takeWhile is_space str;
          r1 = dropWhile is_space str;
          neg = (r1 \<noteq> [] \<and> hd r1 = CHR ''-'');
          signed = (r1 \<noteq> [] \<and> (hd r1 = CHR ''-'' \<or> hd r1 = CHR ''+''));
          r2 = (if signed then tl r1 else r1);
          ds = takeWhile is_digit r2
      in if ds = [] then None
         else Some (long_saturate cfg
                      (if neg then - int (digits_value ds) else int (digits_value ds)),
                    length ws + (if signed then 1 else 0) + length ds))"

text \<open>
  The \<^verbatim>\<open>readdir\<close> loop over the entries of \<^verbatim>\<open>/proc/self/task\<close>. The first component of the
  result is \<open>None\<close> when the loop was left with \<^verbatim>\<open>n = DDS_RETCODE_ERROR\<close>, and the counter
  otherwise.
\<close>

fun thread_list_loop ::
  "build_config \<Rightarrow> string list \<Rightarrow> int list \<Rightarrow> nat \<Rightarrow> nat option \<times> int list" where
  "thread_list_loop cfg [] tids n = (Some n, tids)"
| "thread_list_loop cfg (d_name # des) tids n =
     (if is_dot_entry d_name then thread_list_loop cfg des tids n
      else
        (case scan_ld cfg d_name of
           None \<Rightarrow> (None, tids)
         | Some (tid, pos) \<Rightarrow>
             if pos \<noteq> length d_name then (None, tids)
             else thread_list_loop cfg des
                    (if n < length tids then tids[n := tid] else tids) (n + 1)))"

text \<open>
  \<open>dir\<close> is what \<^verbatim>\<open>opendir\<close> and \<^verbatim>\<open>readdir\<close> give: \<open>None\<close> when the directory cannot be
  opened, and otherwise the names of its entries.
\<close>

definition ddsrt_thread_list_linux ::
  "build_config \<Rightarrow> string list option \<Rightarrow> int list \<Rightarrow> (dds_return_t + nat) \<times> int list" where
  "ddsrt_thread_list_linux cfg dir tids =
     (case dir of
        None \<Rightarrow> (Inl DDS_RETCODE_ERROR, tids)
      | Some des \<Rightarrow>
          (case thread_list_loop cfg des tids 0 of
             (None, tids') \<Rightarrow> (Inl DDS_RETCODE_ERROR, tids')
           | (Some n, tids') \<Rightarrow> ((if n = 0 then Inl DDS_RETCODE_ERROR else Inr n), tids')))"

text \<open>
  QNX. Outcomes of the calls: the process identifier, whether \<^verbatim>\<open>open\<close> and \<^verbatim>\<open>devctl\<close>
  succeed, and the number of threads that \<^verbatim>\<open>devctl\<close> reports.
\<close>

record qnx_list_calls =
  list_pid :: int
  list_open_ok :: bool
  list_devctl_ok :: bool
  num_threads :: nat

function thread_list_qnx_loop :: "nat \<Rightarrow> int list \<Rightarrow> int \<Rightarrow> nat \<Rightarrow> nat \<times> int list" where
  "thread_list_qnx_loop num tids tid n =
     (if n < num then
        (if n < length tids then thread_list_qnx_loop num (tids[n := tid]) (tid + 1) (n + 1)
         else (n, tids))
      else (n, tids))"
  by pat_completeness auto
termination
  by (relation "measure (\<lambda>(num, tids, tid, n). length tids - n)") auto

declare thread_list_qnx_loop.simps [simp del]

definition ddsrt_thread_list_qnx ::
  "qnx_list_calls \<Rightarrow> int list \<Rightarrow> (dds_return_t + nat) \<times> int list \<times> event list" where
  "ddsrt_thread_list_qnx e tids =
     (let pos = length (''/proc/'' @ dec_int (list_pid e) @ ''/as'')
      in if 32 \<le> pos then (Inl DDS_RETCODE_ERROR, tids, [])
         else if \<not> list_open_ok e then (Inl DDS_RETCODE_NOT_FOUND, tids, [])
         else if \<not> list_devctl_ok e
           then (Inl DDS_RETCODE_ERROR, tids, [DDS_ERROR ''devctl() failed for DCMD_PROC_INFO''])
         else
           (case thread_list_qnx_loop (num_threads e) tids 1 0 of
              (n, tids') \<Rightarrow> ((if n = 0 then Inl DDS_RETCODE_ERROR else Inr n), tids', [])))"

text \<open>macOS. \<open>tasks\<close> is the array given by \<^verbatim>\<open>task_threads\<close>, \<open>None\<close> when that call fails.\<close>

function thread_list_apple_loop :: "int list \<Rightarrow> int list \<Rightarrow> nat \<Rightarrow> int list" where
  "thread_list_apple_loop tasks tids i =
     (if i < length tasks \<and> i < length tids
      then thread_list_apple_loop tasks (tids[i := tasks ! i]) (i + 1)
      else tids)"
  by pat_completeness auto
termination
  by (relation "measure (\<lambda>(tasks, tids, i). length tids - i)") auto

declare thread_list_apple_loop.simps [simp del]

definition ddsrt_thread_list_apple ::
  "int list option \<Rightarrow> int list \<Rightarrow> (dds_return_t + nat) \<times> int list" where
  "ddsrt_thread_list_apple tasks_opt tids =
     (case tasks_opt of
        None \<Rightarrow> (Inl DDS_RETCODE_ERROR, tids)
      | Some tasks \<Rightarrow> (Inr (length tasks), thread_list_apple_loop tasks tids 0))"

subsection \<open>The name of any thread\<close>

text \<open>
  Linux. \<open>fs\<close> is the file system as \<^verbatim>\<open>fopen (file, "r")\<close> sees it: the content of the file
  at a path, or \<open>None\<close> when it cannot be opened. The buffer \<^verbatim>\<open>name\<close> and its \<^verbatim>\<open>size\<close> are one
  list. The identifier is converted to \<^verbatim>\<open>unsigned long\<close> for printing.
\<close>

fun getname_loop :: "string \<Rightarrow> nat \<Rightarrow> nat \<Rightarrow> string \<Rightarrow> nat \<times> string" where
  "getname_loop [] namelen namepos name = (namelen, name)"
| "getname_loop (c # cs) namelen namepos name =
     (let namelen' = (if c = CHR '')'' then namepos else namelen)
      in if namepos + 1 < length name
         then getname_loop cs namelen' (namepos + 1) (name[namepos := c])
         else getname_loop cs namelen' namepos name)"

definition skip_to_paren :: "string \<Rightarrow> string" where
  "skip_to_paren content =
     (case dropWhile (\<lambda>c. c \<noteq> CHR ''('') content of [] \<Rightarrow> [] | c # rest \<Rightarrow> rest)"

definition ddsrt_thread_getname_anythread_linux ::
  "build_config \<Rightarrow> (string \<Rightarrow> string option) \<Rightarrow> int \<Rightarrow> string
     \<Rightarrow> fault + (dds_return_t \<times> string)" where
  "ddsrt_thread_getname_anythread_linux cfg fs tid name =
     (let file = ''/proc/self/task/'' @ dec (nat (tid mod 2 ^ long_bits cfg)) @ ''/stat'';
          pos = length file
      in if 100 \<le> pos then Inr (DDS_RETCODE_ERROR, name)
         else
           (case fs file of
              None \<Rightarrow> Inr (DDS_RETCODE_NOT_FOUND, name)
            | Some content \<Rightarrow>
                (case getname_loop (skip_to_paren content) 0 0 name of
                   (namelen, name') \<Rightarrow>
                     if \<not> (length name = 0 \<or> namelen < length name) then Inl Assert_failed
                     else Inr (DDS_RETCODE_OK,
                               (if 0 < length name then name'[namelen := CHR 0x00] else name')))))"

text \<open>
  QNX. Outcomes of the calls: the process identifier, whether \<^verbatim>\<open>open\<close> succeeds, the
  room for a name in the control structure, whether \<^verbatim>\<open>devctl\<close> succeeds, and the thread
  and the name it then reports. \<open>sz\<close> is the \<^verbatim>\<open>size\<close> of the buffer; on success the result
  holds the text that the buffer contains.
\<close>

record qnx_name_calls =
  name_pid :: int
  name_open_ok :: bool
  name_buf_len :: nat
  name_devctl_ok :: bool
  devctl_tid :: int
  devctl_name :: string

definition ddsrt_thread_getname_anythread_qnx ::
  "qnx_name_calls \<Rightarrow> int \<Rightarrow> nat \<Rightarrow> fault + (dds_return_t \<times> string option \<times> event list)" where
  "ddsrt_thread_getname_anythread_qnx e tid sz =
     (let pos = length (''/proc/'' @ dec_int (name_pid e) @ ''/as'')
      in if 100 \<le> pos then Inr (DDS_RETCODE_ERROR, None, [])
         else if \<not> name_open_ok e then Inr (DDS_RETCODE_NOT_FOUND, None, [])
         else if name_buf_len e < sz then Inr (DDS_RETCODE_NOT_ENOUGH_SPACE, None, [])
         else if \<not> name_devctl_ok e
           then Inr (DDS_RETCODE_ERROR, None,
                     [DDS_ERROR ''devctl() failed for DCMD_PROC_THREADCTL''])
         else if devctl_tid e \<noteq> tid then Inr (DDS_RETCODE_NOT_FOUND, None, [])
         else if sz = 0 then Inl Bad_pointer
         else Inr (DDS_RETCODE_OK, Some (take (sz - 1) (devctl_name e)), []))"

text \<open>
  macOS. Outcomes of the calls: whether \<^verbatim>\<open>pthread_from_mach_thread_np\<close> finds a thread,
  the error code of \<^verbatim>\<open>pthread_getname_np\<close> and the name it reports. The result holds the
  text that the buffer contains, when the buffer has room for any.
\<close>

record apple_name_calls =
  pthread_found :: bool
  getname_err :: int
  getname_name :: string

definition ddsrt_thread_getname_anythread_apple ::
  "apple_name_calls \<Rightarrow> int \<Rightarrow> nat \<Rightarrow> dds_return_t \<times> string option" where
  "ddsrt_thread_getname_anythread_apple e tid sz =
     (if 0 < sz then
        (if \<not> pthread_found e \<or> getname_err e \<noteq> 0 \<or> take (sz - 1) (getname_name e) = []
         then (DDS_RETCODE_OK, Some (take (sz - 1) (''task'' @ dec (nat (tid mod 2 ^ 64)))))
         else (DDS_RETCODE_OK, Some (take (sz - 1) (getname_name e))))
      else (DDS_RETCODE_OK, None))"

subsection \<open>Concrete inputs used by the witnesses\<close>

definition cfg_linux :: build_config where
  "cfg_linux = \<lparr>platform = Linux, glibc = True, pthread_stack_min = Some 16384,
     cpu_setsize = 1024, max_pthread_count = 0, thread_count = 0, thread_stack_size = 0,
     einval = 22, esrch = 3, sigxcpu = 24, sched_fifo = 1, sched_other = 0,
     ptr_bits = 64, long_bits = 64\<rparr>"

definition tls_empty :: tls where
  "tls_empty = \<lparr>self = 1, key_created = False, specific = None, heap = fmempty, invoked = []\<rparr>"

definition calls_ok :: "addr \<Rightarrow> cleanup_calls" where
  "calls_ok a = \<lparr>key_create_err = 0, calloc_result = Some a, setspecific_err = 0\<rparr>"

definition calls_nomem :: cleanup_calls where
  "calls_nomem = \<lparr>key_create_err = 0, calloc_result = None, setspecific_err = 0\<rparr>"

text \<open>
  A thread that has pushed routine 10 with argument 100 and then routine 20 with
  argument 200; the records sit at the addresses 16 and 32.
\<close>

definition tls_AB :: tls where
  "tls_AB = \<lparr>self = 1, key_created = True, specific = Some 32,
     heap = fmupd 32 \<lparr>prev = Some 16, routine = Some 20, arg = 200\<rparr>
              (fmupd 16 \<lparr>prev = None, routine = Some 10, arg = 100\<rparr> fmempty),
     invoked = []\<rparr>"

definition stack_AB :: "(addr \<times> fnptr \<times> voidptr) list" where
  "stack_AB = [(32, 20, 200), (16, 10, 100)]"

text \<open>
  A Linux creator with no signal blocked and no thread made yet, and outcomes of the
  library calls in which every call succeeds: the creator runs under \<^verbatim>\<open>SCHED_OTHER\<close>
  with priority 0, the range of \<^verbatim>\<open>SCHED_FIFO\<close> is 1 to 99 and that of any other policy
  0 to 0.
\<close>

definition proc0 :: proc where
  "proc0 = \<lparr>sigmask = {}, currThrIdx = 0, contexts = fmempty, threads = fmempty, trace = []\<rparr>"

definition calls_all_ok :: create_calls where
  "calls_all_ok =
     \<lparr>attr_init_err = 0, setscope_err = 0, setdetachstate_err = 0, setstacksize_err = 0,
      setstack_err = 0, getschedparam_err = 0, self_policy = 0, self_priority = 0,
      attr_getschedparam_err = 0, attr_priority = 0, attr_getschedpolicy_err = 0,
      attr_policy = 1, setschedpolicy_err = 0,
      priority_min = (\<lambda>p. if p = 1 then 1 else 0),
      priority_max = (\<lambda>p. if p = 1 then 99 else 0),
      setschedparam_err = 0, setinheritsched_err = 0, setaffinity_err = 0,
      malloc_result = 4096, create_err = 0, new_thread = 7\<rparr>"

text \<open>
  The same, but \<^verbatim>\<open>pthread_attr_setschedparam\<close> fails with \<^verbatim>\<open>EINVAL\<close> (22). This is what
  the GNU C library answers when the priority it is handed lies outside the range of
  the policy that the attribute object holds, as priority 0 does once the policy is
  \<^verbatim>\<open>SCHED_FIFO\<close>.
\<close>

definition calls_fallback_rejected :: create_calls where
  "calls_fallback_rejected = calls_all_ok\<lparr>setschedparam_err := 22\<rparr>"

text \<open>The same as \<open>calls_all_ok\<close>, but \<^verbatim>\<open>pthread_create\<close> fails with \<^verbatim>\<open>EAGAIN\<close> (11).\<close>

definition calls_spawn_fails :: create_calls where
  "calls_spawn_fails = calls_all_ok\<lparr>create_err := 11\<rparr>"

text \<open>
  A Zephyr build with the default ten stacks of 32768 bytes, and outcomes in which every
  call succeeds: the attribute object starts with policy 1 and priority 0, and every
  policy has the priorities 0 to 15.
\<close>

definition calls_zephyr_ok :: create_calls where
  "calls_zephyr_ok = calls_all_ok\<lparr>priority_min := (\<lambda>p. 0), priority_max := (\<lambda>p. 15)\<rparr>"

definition cfg_zephyr :: build_config where
  "cfg_zephyr = \<lparr>platform = Zephyr, glibc = False, pthread_stack_min = None,
     cpu_setsize = 0, max_pthread_count = 16, thread_count = 10, thread_stack_size = 32768,
     einval = 22, esrch = 3, sigxcpu = 24, sched_fifo = 1, sched_other = 0,
     ptr_bits = 32, long_bits = 32\<rparr>"

definition attr_default_prio5 :: ddsrt_threadattr_t where
  "attr_default_prio5 = ddsrt_threadattr_init\<lparr>schedPriority := 5\<rparr>"

definition attr_realtime_prio1000 :: ddsrt_threadattr_t where
  "attr_realtime_prio1000 =
     ddsrt_threadattr_init\<lparr>schedClass := DDSRT_SCHED_REALTIME, schedPriority := 1000\<rparr>"

text \<open>Projections of the result of \<^verbatim>\<open>ddsrt_thread_create\<close>.\<close>

definition result_code :: "fault + (dds_return_t \<times> nat option \<times> proc) \<Rightarrow> dds_return_t option" where
  "result_code r = (case r of Inl f \<Rightarrow> None | Inr (rc, h, s) \<Rightarrow> Some rc)"

definition result_sigmask :: "fault + (dds_return_t \<times> nat option \<times> proc) \<Rightarrow> nat set option" where
  "result_sigmask r = (case r of Inl f \<Rightarrow> None | Inr (rc, h, s) \<Rightarrow> Some (sigmask s))"

definition result_trace :: "fault + (dds_return_t \<times> nat option \<times> proc) \<Rightarrow> event list" where
  "result_trace r = (case r of Inl f \<Rightarrow> [] | Inr (rc, h, s) \<Rightarrow> trace s)"

subsection \<open>Notions used to state the properties of creation\<close>

text \<open>The calls that read or set scheduling policy or priority, and the call that spawns.\<close>

definition sched_call :: "event \<Rightarrow> bool" where
  "sched_call ev =
     (case ev of
        Pthread_getschedparam \<Rightarrow> True
      | Pthread_attr_getschedparam \<Rightarrow> True
      | Pthread_attr_getschedpolicy \<Rightarrow> True
      | Pthread_attr_setschedpolicy p \<Rightarrow> True
      | Pthread_attr_setschedparam p \<Rightarrow> True
      | Pthread_attr_setinheritsched \<Rightarrow> True
      | _ \<Rightarrow> False)"

definition spawn_call :: "event \<Rightarrow> bool" where
  "spawn_call ev = (case ev of Pthread_create c \<Rightarrow> True | _ \<Rightarrow> False)"

text \<open>The events that tell which priority was applied: the priority call and warnings.\<close>

definition priority_note :: "event \<Rightarrow> bool" where
  "priority_note ev =
     (case ev of Pthread_attr_setschedparam p \<Rightarrow> True | DDS_WARNING m \<Rightarrow> True | _ \<Rightarrow> False)"

text \<open>Every library call of \<^verbatim>\<open>ddsrt_thread_create\<close> reports success.\<close>

definition calls_succeed :: "create_calls \<Rightarrow> bool" where
  "calls_succeed e =
     (attr_init_err e = 0 \<and> setscope_err e = 0 \<and> setdetachstate_err e = 0 \<and>
      setstacksize_err e = 0 \<and> setstack_err e = 0 \<and> getschedparam_err e = 0 \<and>
      attr_getschedparam_err e = 0 \<and> attr_getschedpolicy_err e = 0 \<and>
      setschedpolicy_err e = 0 \<and> setschedparam_err e = 0 \<and> setinheritsched_err e = 0 \<and>
      setaffinity_err e = 0 \<and> create_err e = 0)"

text \<open>
  On Zephyr a thread needs one of the static stacks: the request must not exceed the
  stack size and a stack must be left. Elsewhere nothing is asked.
\<close>

definition stack_available :: "build_config \<Rightarrow> ddsrt_threadattr_t \<Rightarrow> proc \<Rightarrow> bool" where
  "stack_available cfg attr s =
     (if platform cfg = Zephyr
      then stackSize attr \<le> thread_stack_size cfg \<and>
           (thread_stack_size cfg = 0 \<or> currThrIdx s < thread_count cfg)
      else True)"

text \<open>The policy that a scheduling class is mapped to, and the priority the query gives.\<close>

definition mapped_policy :: "build_config \<Rightarrow> ddsrt_sched_t \<Rightarrow> int" where
  "mapped_policy cfg c = (if c = DDSRT_SCHED_REALTIME then sched_fifo cfg else sched_other cfg)"

definition ambient_priority :: "build_config \<Rightarrow> create_calls \<Rightarrow> int" where
  "ambient_priority cfg e = (if platform cfg = Zephyr then attr_priority e else self_priority e)"

definition priority_in_range :: "create_calls \<Rightarrow> int \<Rightarrow> int \<Rightarrow> bool" where
  "priority_in_range e policy prio = (priority_min e policy \<le> prio \<and> prio \<le> priority_max e policy)"

text \<open>
  The scheduling calls and warnings of a creation with a scheduling class, in order:
  the query, the policy call with the mapped policy, the warning when the requested
  priority is out of range, the priority call, and outside Zephyr the call that makes
  the new thread use the attributes rather than inherit.
\<close>

definition sched_note :: "event \<Rightarrow> bool" where
  "sched_note ev = (sched_call ev \<or> priority_note ev)"

definition sched_events :: "build_config \<Rightarrow> create_calls \<Rightarrow> ddsrt_threadattr_t \<Rightarrow> event list" where
  "sched_events cfg e attr =
     (if platform cfg \<noteq> Zephyr then [Pthread_getschedparam]
      else [Pthread_attr_getschedparam, Pthread_attr_getschedpolicy]) @
     [Pthread_attr_setschedpolicy (mapped_policy cfg (schedClass attr))] @
     (if priority_in_range e (mapped_policy cfg (schedClass attr)) (schedPriority attr)
      then []
      else [DDS_WARNING ''requested thread priority invalid for policy, fall-back to default'']) @
     [Pthread_attr_setschedparam
        (if priority_in_range e (mapped_policy cfg (schedClass attr)) (schedPriority attr)
         then schedPriority attr else ambient_priority cfg e)] @
     (if platform cfg \<noteq> Zephyr then [Pthread_attr_setinheritsched] else [])"

text \<open>
  \<open>extends P s s'\<close>: the state \<open>s'\<close> is \<open>s\<close> with more events in the trace, each of which
  satisfies \<open>P\<close>, and possibly another value of the stack counter; nothing else differs.
\<close>

definition extends :: "(event \<Rightarrow> bool) \<Rightarrow> proc \<Rightarrow> proc \<Rightarrow> bool" where
  "extends P s s' =
     (\<exists>evs k. s' = s\<lparr>currThrIdx := k, trace := trace s @ evs\<rparr> \<and> list_all P evs)"

text \<open>The events of the sections of creation that come before the scheduling section.\<close>

definition config_event :: "event \<Rightarrow> bool" where
  "config_event ev =
     (case ev of
        Pthread_attr_init \<Rightarrow> True
      | Pthread_attr_setname n \<Rightarrow> True
      | Pthread_attr_setscope \<Rightarrow> True
      | Pthread_attr_setdetachstate \<Rightarrow> True
      | Pthread_attr_setstacksize n \<Rightarrow> True
      | Pthread_attr_setstack i n \<Rightarrow> True
      | DDS_ERROR m \<Rightarrow> True
      | _ \<Rightarrow> False)"

text \<open>Routines: the one at address 7 returns 3000000000 more than its argument.\<close>

definition routines_example :: "fnptr \<Rightarrow> voidptr \<Rightarrow> nat" where
  "routines_example f x = (if f = 7 then 3000000000 + x else 0)"

text \<open>
  The state after \<^verbatim>\<open>ddsrt_thread_create\<close> has made the thread 7 from \<open>proc0\<close> with default
  attributes, every call succeeding.
\<close>

definition proc_created :: proc where
  "proc_created =
     \<lparr>sigmask = {}, currThrIdx = 0,
      contexts = fmupd 4096 \<lparr>ctx_name = ''worker'', ctx_routine = Some 7, ctx_arg = 0\<rparr> fmempty,
      threads = fmupd 7 (Runnable 4096 (UNIV - {24})) fmempty,
      trace = [Pthread_attr_init, Pthread_attr_setscope, Pthread_attr_setdetachstate,
               Sigprocmask_block (UNIV - {24}), Pthread_create 4096, Sigprocmask_setmask {},
               Pthread_attr_destroy]\<rparr>"

subsection \<open>Notions and inputs for enumeration and name lookup\<close>

text \<open>
  A directory entry that is the decimal text of a thread identifier, as the entries
  of \<^verbatim>\<open>/proc/self/task\<close> other than \<^verbatim>\<open>.\<close> and \<^verbatim>\<open>..\<close> are: \<^verbatim>\<open>sscanf\<close> reads a number and
  consumes the whole name.
\<close>

definition tid_entry :: "build_config \<Rightarrow> string \<Rightarrow> bool" where
  "tid_entry cfg d_name =
     (case scan_ld cfg d_name of None \<Rightarrow> False | Some (tid, pos) \<Rightarrow> pos = length d_name)"

text \<open>The number of entries that stand for threads.\<close>

definition live_count :: "string list \<Rightarrow> nat" where
  "live_count des = length (filter (\<lambda>d. \<not> is_dot_entry d) des)"

text \<open>The file that the Linux lookup reads for a thread.\<close>

definition task_stat_file :: "build_config \<Rightarrow> int \<Rightarrow> string" where
  "task_stat_file cfg tid = ''/proc/self/task/'' @ dec (nat (tid mod 2 ^ long_bits cfg)) @ ''/stat''"

text \<open>A QNX process with three threads, and a listing of a Linux process with three.\<close>

definition qnx_three_threads :: qnx_list_calls where
  "qnx_three_threads =
     \<lparr>list_pid = 1234, list_open_ok = True, list_devctl_ok = True, num_threads = 3\<rparr>"

definition linux_three_threads :: "string list" where
  "linux_three_threads = [''.'', ''..'', ''811'', ''812'', ''815'']"

text \<open>macOS: no thread belongs to the identifier.\<close>

definition apple_no_thread :: apple_name_calls where
  "apple_no_thread = \<lparr>pthread_found = False, getname_err = 0, getname_name = []\<rparr>"

text \<open>QNX: the thread asked for is gone and \<^verbatim>\<open>devctl\<close> answers for thread 9.\<close>

definition qnx_other_thread :: qnx_name_calls where
  "qnx_other_thread =
     \<lparr>name_pid = 1234, name_open_ok = True, name_buf_len = 100, name_devctl_ok = True,
      devctl_tid = 9, devctl_name = ''recv''\<rparr>"

text \<open>Linux: a file system in which no file can be opened.\<close>

definition fs_nothing :: "string \<Rightarrow> string option" where
  "fs_nothing path = None"

section \<open>Properties of the cleanup stack\<close>

subsection \<open>The chain of records under allocation and release\<close>

lemma stack_at_fmdrop:
  "a \<notin> fst ` set cs \<Longrightarrow> stack_at (fmdrop a h) p cs = stack_at h p cs"
  by (induction cs arbitrary: p) (auto split: option.splits)

lemma stack_at_fmupd:
  "a \<notin> fst ` set cs \<Longrightarrow> stack_at (fmupd a r h) p cs = stack_at h p cs"
  by (induction cs arbitrary: p) (auto split: option.splits)

lemma stack_at_allocated:
  "stack_at h p cs \<Longrightarrow> fst ` set cs \<subseteq> fset (fmdom h)"
proof (induction cs arbitrary: p)
  case Nil
  then show ?case by simp
next
  case (Cons c cs)
  obtain a f x where c: "c = (a, f, x)"
    by (cases c)
  from Cons.prems c obtain r where
    r: "fmlookup h a = Some r" and rest: "stack_at h (prev r) cs"
    by (auto split: option.splits)
  have "a |\<in>| fmdom h"
    using r by (rule fmdomI)
  with Cons.IH [OF rest] show ?case
    by (simp add: c)
qed

text \<open>
  The heap determines the chain that starts at a pointer, and a chain that ends in
  \<^verbatim>\<open>NULL\<close> passes through no address twice.
\<close>

lemma stack_at_unique:
  "stack_at h p cs \<Longrightarrow> stack_at h p cs' \<Longrightarrow> cs = cs'"
proof (induction cs arbitrary: p cs')
  case Nil
  then show ?case
    by (cases cs') auto
next
  case (Cons c cs)
  obtain a f x where c: "c = (a, f, x)"
    by (cases c)
  from Cons.prems(1) c obtain r where
    p: "p = Some a" and r: "fmlookup h a = Some r" and
    rf: "routine r = Some f" and rx: "arg r = x" and
    rest: "stack_at h (prev r) cs"
    by (auto split: option.splits)
  from Cons.prems(2) p obtain c' ds where cs': "cs' = c' # ds"
    by (cases cs') auto
  obtain a' f' x' where c': "c' = (a', f', x')"
    by (cases c')
  from Cons.prems(2) cs' c' p r rf rx have "c' = c" and "stack_at h (prev r) ds"
    by (auto simp: c)
  with Cons.IH [OF rest] cs' show ?case
    by simp
qed

lemma stack_at_suffix:
  "stack_at h p (ys @ zs) \<Longrightarrow> \<exists>q. stack_at h q zs"
proof (induction ys arbitrary: p)
  case Nil
  then show ?case by auto
next
  case (Cons y ys)
  obtain a f x where "y = (a, f, x)"
    by (cases y)
  with Cons.prems obtain r :: thread_cleanup_t where "stack_at h (prev r) (ys @ zs)"
    by (auto split: option.splits)
  then show ?case
    by (rule Cons.IH)
qed

lemma stack_at_distinct:
  "stack_at h p cs \<Longrightarrow> distinct (map fst cs)"
proof (induction cs arbitrary: p)
  case Nil
  then show ?case by simp
next
  case (Cons c cs)
  obtain a f x where c: "c = (a, f, x)"
    by (cases c)
  from Cons.prems c obtain r :: thread_cleanup_t where
    p: "p = Some a" and rest: "stack_at h (prev r) cs"
    by (auto split: option.splits)
  have "a \<notin> fst ` set cs"
  proof
    assume "a \<in> fst ` set cs"
    then obtain f' x' where "(a, f', x') \<in> set cs"
      by auto
    then obtain ys zs where split: "cs = ys @ (a, f', x') # zs"
      by (auto simp: in_set_conv_decomp)
    with rest obtain q where q: "stack_at h q ((a, f', x') # zs)"
      using stack_at_suffix by blast
    then have "q = Some a"
      by simp
    with q Cons.prems p c have "(a, f', x') # zs = (a, f, x) # cs"
      using stack_at_unique by blast
    with split show False
      by simp
  qed
  with Cons.IH [OF rest] show ?case
    by (simp add: c)
qed

lemma fmdrop_fresh_fmupd:
  "a |\<notin>| fmdom h \<Longrightarrow> fmdrop a (fmupd a r h) = h"
  by (simp add: fmdrop_fmupd_same fmdrop_idle)

text \<open>
  The loop of \<^verbatim>\<open>thread_cleanup_fini\<close> on a well-formed chain: it returns, it has called
  the routines of the chain from the head on, and it has freed every record of it.
\<close>

lemma thread_cleanup_fini_stack:
  "stack_at (heap s) p cs \<Longrightarrow> distinct (map fst cs) \<Longrightarrow>
   thread_cleanup_fini p s =
     Inr (s\<lparr>invoked := invoked s @ map snd cs,
            heap := fmdrop_fset (fset_of_list (map fst cs)) (heap s)\<rparr>)"
proof (induction cs arbitrary: p s)
  case Nil
  then show ?case
    by (simp add: thread_cleanup_fini.simps)
next
  case (Cons c cs)
  obtain a f x where c: "c = (a, f, x)"
    by (cases c)
  from Cons.prems(1) c obtain r where
    p: "p = Some a" and r: "fmlookup (heap s) a = Some r" and
    rf: "routine r = Some f" and rx: "arg r = x" and
    rest: "stack_at (heap s) (prev r) cs"
    by (auto split: option.splits)
  from Cons.prems(2) c have fresh: "a \<notin> fst ` set cs" and dist: "distinct (map fst cs)"
    by auto
  let ?s = "s\<lparr>invoked := invoked s @ [(f, arg r)], heap := fmdrop a (heap s)\<rparr>"
  have "stack_at (heap ?s) (prev r) cs"
    using rest fresh by (simp add: stack_at_fmdrop)
  from Cons.IH [OF this dist]
  have "thread_cleanup_fini (prev r) ?s =
          Inr (?s\<lparr>invoked := invoked ?s @ map snd cs,
                 heap := fmdrop_fset (fset_of_list (map fst cs)) (heap ?s)\<rparr>)" .
  moreover have "thread_cleanup_fini p s = thread_cleanup_fini (prev r) ?s"
    by (subst thread_cleanup_fini.simps) (simp add: p r rf)
  ultimately show ?case
    by (simp add: c rx fmdrop_fset_fmdrop)
qed

subsection \<open>Push and pop\<close>

lemma thread_init_ok:
  "key_created s \<or> key_create_err e = 0 \<Longrightarrow> thread_init e s = Inr (s\<lparr>key_created := True\<rparr>)"
  by (auto simp: thread_init_def thread_init_once_def)

lemma cleanup_push_ok:
  assumes "\<not> not_a_pthread cfg s" and "key_created s \<or> key_create_err e = 0"
    and "calloc_result e = Some t" and "setspecific_err e = 0"
  shows "ddsrt_thread_cleanup_push cfg e (Some f) x s =
           Inr (DDS_RETCODE_OK,
                s\<lparr>key_created := True, specific := Some t,
                  heap := fmupd t \<lparr>prev = specific s, routine = Some f, arg = x\<rparr> (heap s)\<rparr>)"
  using assms by (simp add: ddsrt_thread_cleanup_push_def thread_init_ok)

text \<open>A successful push of a fresh record extends the stack at its head.\<close>

lemma cleanup_push_stack:
  assumes "stack_at (heap s) (specific s) cs" and "t |\<notin>| fmdom (heap s)"
  shows "stack_at (fmupd t \<lparr>prev = specific s, routine = Some f, arg = x\<rparr> (heap s))
           (Some t) ((t, f, x) # cs)"
proof -
  have "t \<notin> fst ` set cs"
    using stack_at_allocated [OF assms(1)] assms(2) by auto
  then show ?thesis
    using assms(1) by (simp add: stack_at_fmupd)
qed

text \<open>A successful pop detaches the head, runs it when asked to, and frees it.\<close>

lemma cleanup_pop_stack:
  assumes "\<not> not_a_pthread cfg s" and "key_created s \<or> key_create_err e = 0"
    and "setspecific_err e = 0"
    and "stack_at (heap s) (specific s) ((a, f, x) # cs)"
  shows "\<exists>p. ddsrt_thread_cleanup_pop cfg e ex s =
           Inr (DDS_RETCODE_OK,
                s\<lparr>key_created := True, specific := p,
                  invoked := (if ex \<noteq> 0 then invoked s @ [(f, x)] else invoked s),
                  heap := fmdrop a (heap s)\<rparr>) \<and>
             stack_at (heap s) p cs"
proof -
  from assms(4) obtain r where
    p: "specific s = Some a" and r: "fmlookup (heap s) a = Some r" and
    rf: "routine r = Some f" and rx: "arg r = x" and
    rest: "stack_at (heap s) (prev r) cs"
    by (auto split: option.splits)
  have "ddsrt_thread_cleanup_pop cfg e ex s =
           Inr (DDS_RETCODE_OK,
                s\<lparr>key_created := True, specific := prev r,
                  invoked := (if ex \<noteq> 0 then invoked s @ [(f, x)] else invoked s),
                  heap := fmdrop a (heap s)\<rparr>)"
    using assms(1-3) by (simp add: ddsrt_thread_cleanup_pop_def thread_init_ok p r rf rx)
  with rest show ?thesis
    by blast
qed

lemma cleanup_pop_empty:
  assumes "\<not> not_a_pthread cfg s" and "key_created s" and "specific s = None"
  shows "ddsrt_thread_cleanup_pop cfg e ex s = Inr (DDS_RETCODE_OK, s)"
  using assms by (simp add: ddsrt_thread_cleanup_pop_def thread_init_def)

text \<open>
  Claim C5. On a thread with an empty cleanup stack, pushing \<open>A\<close> and then \<open>B\<close> and
  popping with a non-zero \<open>execute\<close> calls exactly \<open>B\<close>; the next such pop calls
  exactly \<open>A\<close>; a further pop, whatever its flag and whatever the library would
  answer, calls nothing and returns OK. At the end the stack is empty and the heap
  of records is the one before the first push. The hypotheses are those under which
  the four calls get to work: the caller is a POSIX thread, the key can be created,
  both allocations succeed and give unused, different addresses, and the four
  \<^verbatim>\<open>pthread_setspecific\<close> calls succeed.
\<close>

theorem cleanup_pop_lifo:
  assumes "\<not> not_a_pthread cfg s0" and "key_created s0 \<or> key_create_err e1 = 0"
    and "specific s0 = None"
    and "calloc_result e1 = Some a1" and "setspecific_err e1 = 0" and "a1 |\<notin>| fmdom (heap s0)"
    and "calloc_result e2 = Some a2" and "setspecific_err e2 = 0" and "a2 |\<notin>| fmdom (heap s0)"
    and "a2 \<noteq> a1"
    and "setspecific_err e3 = 0" and "ex3 \<noteq> 0"
    and "setspecific_err e4 = 0" and "ex4 \<noteq> 0"
  shows "\<exists>s1 s2 s3 s4.
           ddsrt_thread_cleanup_push cfg e1 (Some A) x s0 = Inr (DDS_RETCODE_OK, s1) \<and>
           ddsrt_thread_cleanup_push cfg e2 (Some B) y s1 = Inr (DDS_RETCODE_OK, s2) \<and>
           ddsrt_thread_cleanup_pop cfg e3 ex3 s2 = Inr (DDS_RETCODE_OK, s3) \<and>
           invoked s3 = invoked s0 @ [(B, y)] \<and>
           ddsrt_thread_cleanup_pop cfg e4 ex4 s3 = Inr (DDS_RETCODE_OK, s4) \<and>
           invoked s4 = invoked s3 @ [(A, x)] \<and>
           ddsrt_thread_cleanup_pop cfg e5 ex5 s4 = Inr (DDS_RETCODE_OK, s4) \<and>
           specific s4 = None \<and> heap s4 = heap s0"
proof -
  let ?rA = "\<lparr>prev = None, routine = Some A, arg = x\<rparr>"
  let ?rB = "\<lparr>prev = Some a1, routine = Some B, arg = y\<rparr>"
  let ?hA = "fmupd a1 ?rA (heap s0)"
  let ?s1 = "s0\<lparr>key_created := True, specific := Some a1, heap := ?hA\<rparr>"
  let ?s2 = "s0\<lparr>key_created := True, specific := Some a2, heap := fmupd a2 ?rB ?hA\<rparr>"
  let ?s3 = "s0\<lparr>key_created := True, specific := Some a1,
               invoked := invoked s0 @ [(B, y)], heap := ?hA\<rparr>"
  let ?s4 = "s0\<lparr>key_created := True, specific := None,
               invoked := invoked s0 @ [(B, y), (A, x)]\<rparr>"
  have np: "\<not> not_a_pthread cfg ?s1" "\<not> not_a_pthread cfg ?s2"
    "\<not> not_a_pthread cfg ?s3" "\<not> not_a_pthread cfg ?s4"
    using assms(1) by (simp_all add: not_a_pthread_def)
  have a2_fresh: "a2 |\<notin>| fmdom ?hA"
    using assms(9,10) by simp
  have push1: "ddsrt_thread_cleanup_push cfg e1 (Some A) x s0 = Inr (DDS_RETCODE_OK, ?s1)"
    using cleanup_push_ok [OF assms(1,2,4,5), of A x] assms(3) by simp
  have push2: "ddsrt_thread_cleanup_push cfg e2 (Some B) y ?s1 = Inr (DDS_RETCODE_OK, ?s2)"
    using cleanup_push_ok [OF np(1) _ assms(7,8), of B y] by simp
  have pop1: "ddsrt_thread_cleanup_pop cfg e3 ex3 ?s2 = Inr (DDS_RETCODE_OK, ?s3)"
    using np(2) assms(11,12) a2_fresh
    by (simp add: ddsrt_thread_cleanup_pop_def thread_init_def fmdrop_fresh_fmupd)
  have pop2: "ddsrt_thread_cleanup_pop cfg e4 ex4 ?s3 = Inr (DDS_RETCODE_OK, ?s4)"
    using np(3) assms(13,14,6)
    by (simp add: ddsrt_thread_cleanup_pop_def thread_init_def fmdrop_fresh_fmupd)
  have pop3: "ddsrt_thread_cleanup_pop cfg e5 ex5 ?s4 = Inr (DDS_RETCODE_OK, ?s4)"
    using np(4) by (simp add: cleanup_pop_empty)
  show ?thesis
    using push1 push2 pop1 pop2 pop3 by simp
qed

theorem cleanup_pop_lifo_witness:
  "\<exists>s1 s2 s3 s4.
     ddsrt_thread_cleanup_push cfg_linux (calls_ok 16) (Some 10) 100 tls_empty =
       Inr (DDS_RETCODE_OK, s1) \<and>
     ddsrt_thread_cleanup_push cfg_linux (calls_ok 32) (Some 20) 200 s1 =
       Inr (DDS_RETCODE_OK, s2) \<and>
     ddsrt_thread_cleanup_pop cfg_linux (calls_ok 3) 1 s2 = Inr (DDS_RETCODE_OK, s3) \<and>
     invoked s3 = invoked tls_empty @ [(20, 200)] \<and>
     ddsrt_thread_cleanup_pop cfg_linux (calls_ok 3) 1 s3 = Inr (DDS_RETCODE_OK, s4) \<and>
     invoked s4 = invoked s3 @ [(10, 100)] \<and>
     ddsrt_thread_cleanup_pop cfg_linux calls_nomem 0 s4 = Inr (DDS_RETCODE_OK, s4) \<and>
     specific s4 = None \<and> heap s4 = heap tls_empty"
  by (rule cleanup_pop_lifo [where ?a1.0 = 16 and ?a2.0 = 32])
    (simp_all add: cfg_linux_def tls_empty_def calls_ok_def not_a_pthread_def)

text \<open>
  Claim C8. When the allocation of the record fails, \<^verbatim>\<open>ddsrt_thread_cleanup_push\<close>
  returns OUT_OF_RESOURCES, and the value stored under the key, the allocated
  records and the calls made are those from before the call. The hypotheses state
  that the call reaches the allocation: the routine is not \<^verbatim>\<open>NULL\<close>, the caller is
  a POSIX thread and the key exists or can be created.
\<close>

theorem cleanup_push_alloc_failure:
  assumes "rtn \<noteq> None" and "\<not> not_a_pthread cfg s"
    and "key_created s \<or> key_create_err e = 0"
    and "calloc_result e = None"
  shows "\<exists>s'. ddsrt_thread_cleanup_push cfg e rtn a s = Inr (DDS_RETCODE_OUT_OF_RESOURCES, s') \<and>
           specific s' = specific s \<and> heap s' = heap s \<and> invoked s' = invoked s"
  using assms by (simp add: ddsrt_thread_cleanup_push_def thread_init_ok)

theorem cleanup_push_alloc_failure_witness:
  "\<exists>s'. ddsrt_thread_cleanup_push cfg_linux calls_nomem (Some 30) 300 tls_AB =
            Inr (DDS_RETCODE_OUT_OF_RESOURCES, s') \<and>
         specific s' = specific tls_AB \<and> heap s' = heap tls_AB \<and> invoked s' = invoked tls_AB"
  by (rule cleanup_push_alloc_failure)
    (simp_all add: cfg_linux_def calls_nomem_def tls_AB_def not_a_pthread_def)

subsection \<open>Unwinding at thread exit and in \<^verbatim>\<open>ddsrt_thread_fini\<close>\<close>

text \<open>
  Claim C6. When a thread ends with the records \<open>cs\<close> on its stack (most recently
  pushed first), the exit-time destructor returns, has called the routine of every
  record with its argument once, in the order of \<open>cs\<close>, that is last pushed first, and
  has freed every record; the value under the key is \<^verbatim>\<open>NULL\<close>.
\<close>

theorem thread_exit_unwinds_stack:
  assumes "key_created s" and "stack_at (heap s) (specific s) cs"
  shows "thread_exit_destructor s =
           Inr (s\<lparr>specific := None, invoked := invoked s @ map snd cs,
                  heap := fmdrop_fset (fset_of_list (map fst cs)) (heap s)\<rparr>)"
proof (cases "specific s")
  case None
  with assms(2) have "cs = []"
    by (cases cs) auto
  with None show ?thesis
    by (simp add: thread_exit_destructor_def)
next
  case (Some a)
  have "stack_at (heap (s\<lparr>specific := None\<rparr>)) (specific s) cs"
    using assms(2) by simp
  from thread_cleanup_fini_stack [OF this stack_at_distinct [OF assms(2)]] Some assms(1)
  show ?thesis
    by (simp add: thread_exit_destructor_def)
qed

theorem thread_exit_unwinds_stack_witness:
  "thread_exit_destructor tls_AB =
     Inr (tls_AB\<lparr>specific := None, invoked := invoked tls_AB @ map snd stack_AB,
            heap := fmdrop_fset (fset_of_list (map fst stack_AB)) (heap tls_AB)\<rparr>)"
  by (rule thread_exit_unwinds_stack) (simp_all add: tls_AB_def stack_AB_def)

text \<open>
  Claim C10. \<^verbatim>\<open>ddsrt_thread_fini\<close> on a thread with the records \<open>cs\<close> on its stack
  calls each routine once, frees the records and, its \<^verbatim>\<open>pthread_setspecific\<close> call
  succeeding, leaves \<^verbatim>\<open>NULL\<close> under the key. A second \<^verbatim>\<open>ddsrt_thread_fini\<close>, and the
  destructor at thread exit, then change nothing: no routine is called again.
\<close>

theorem thread_fini_idempotent:
  assumes "key_created s \<or> key_create_err e = 0" and "setspecific_err e = 0"
    and "stack_at (heap s) (specific s) cs"
  shows "\<exists>s1. ddsrt_thread_fini e s = Inr s1 \<and>
           specific s1 = None \<and>
           invoked s1 = invoked s @ map snd cs \<and>
           heap s1 = fmdrop_fset (fset_of_list (map fst cs)) (heap s) \<and>
           ddsrt_thread_fini e' s1 = Inr s1 \<and>
           thread_exit_destructor s1 = Inr s1"
proof -
  let ?s0 = "s\<lparr>key_created := True\<rparr>"
  let ?s1 = "s\<lparr>key_created := True, specific := None, invoked := invoked s @ map snd cs,
               heap := fmdrop_fset (fset_of_list (map fst cs)) (heap s)\<rparr>"
  have init: "thread_init e s = Inr ?s0"
    using assms(1) by (rule thread_init_ok)
  have "stack_at (heap ?s0) (specific ?s0) cs"
    using assms(3) by simp
  from thread_cleanup_fini_stack [OF this stack_at_distinct [OF assms(3)]]
  have unwind: "thread_cleanup_fini (specific s) ?s0 =
                  Inr (s\<lparr>key_created := True, invoked := invoked s @ map snd cs,
                         heap := fmdrop_fset (fset_of_list (map fst cs)) (heap s)\<rparr>)"
    by simp
  have first: "ddsrt_thread_fini e s = Inr ?s1"
  proof (cases "specific s")
    case None
    with assms(3) have "cs = []"
      by (cases cs) auto
    with None init show ?thesis
      by (simp add: ddsrt_thread_fini_def)
  next
    case (Some a)
    with init unwind assms(2) show ?thesis
      by (simp add: ddsrt_thread_fini_def)
  qed
  have second: "ddsrt_thread_fini e' ?s1 = Inr ?s1"
    by (simp add: ddsrt_thread_fini_def thread_init_def)
  have exit: "thread_exit_destructor ?s1 = Inr ?s1"
    by (simp add: thread_exit_destructor_def)
  from first second exit show ?thesis
    by simp
qed

theorem thread_fini_idempotent_witness:
  "\<exists>s1. ddsrt_thread_fini (calls_ok 3) tls_AB = Inr s1 \<and>
     specific s1 = None \<and>
     invoked s1 = invoked tls_AB @ map snd stack_AB \<and>
     heap s1 = fmdrop_fset (fset_of_list (map fst stack_AB)) (heap tls_AB) \<and>
     ddsrt_thread_fini calls_nomem s1 = Inr s1 \<and>
     thread_exit_destructor s1 = Inr s1"
  by (rule thread_fini_idempotent) (simp_all add: tls_AB_def calls_ok_def stack_AB_def)

section \<open>Properties of thread creation and join\<close>

lemmas create_defs =
  ddsrt_thread_create_def create_configure_def create_stack_def create_sched_def
  sched_query_def sched_apply_def create_affinity_def create_spawn_def bind_step_def emit_def

lemmas input_defs =
  cfg_linux_def cfg_zephyr_def calls_spawn_fails_def calls_fallback_rejected_def
  calls_zephyr_ok_def calls_all_ok_def
  ddsrt_threadattr_init_def  proc0_def attr_default_prio5_def attr_realtime_prio1000_def

subsection \<open>States that differ by trace events only\<close>

lemma extends_refl: "extends P s s"
proof -
  have "s = s\<lparr>currThrIdx := currThrIdx s, trace := trace s @ []\<rparr>"
    by simp
  moreover have "list_all P []"
    by simp
  ultimately show ?thesis
    unfolding extends_def by blast
qed

lemma extends_emit: "extends P s s1 \<Longrightarrow> P ev \<Longrightarrow> extends P s (emit ev s1)"
proof -
  assume "extends P s s1" and ev: "P ev"
  then obtain evs k where s1: "s1 = s\<lparr>currThrIdx := k, trace := trace s @ evs\<rparr>"
    and evs: "list_all P evs"
    unfolding extends_def by blast
  have "emit ev s1 = s\<lparr>currThrIdx := k, trace := trace s @ (evs @ [ev])\<rparr>"
    by (simp add: s1 emit_def)
  moreover have "list_all P (evs @ [ev])"
    using evs ev by simp
  ultimately show ?thesis
    unfolding extends_def by blast
qed

lemma extends_idx: "extends P s s1 \<Longrightarrow> extends P s (s1\<lparr>currThrIdx := k\<rparr>)"
proof -
  assume "extends P s s1"
  then obtain evs j where s1: "s1 = s\<lparr>currThrIdx := j, trace := trace s @ evs\<rparr>"
    and evs: "list_all P evs"
    unfolding extends_def by blast
  have "s1\<lparr>currThrIdx := k\<rparr> = s\<lparr>currThrIdx := k, trace := trace s @ evs\<rparr>"
    by (simp add: s1)
  with evs show ?thesis
    unfolding extends_def by blast
qed

lemma extends_trans: "extends P s s1 \<Longrightarrow> extends P s1 s2 \<Longrightarrow> extends P s s2"
proof -
  assume "extends P s s1" and "extends P s1 s2"
  then obtain evs j evs' k where s1: "s1 = s\<lparr>currThrIdx := j, trace := trace s @ evs\<rparr>"
    and evs: "list_all P evs"
    and s2: "s2 = s1\<lparr>currThrIdx := k, trace := trace s1 @ evs'\<rparr>"
    and evs': "list_all P evs'"
    unfolding extends_def by blast
  have "s2 = s\<lparr>currThrIdx := k, trace := trace s @ (evs @ evs')\<rparr>"
    by (simp add: s1 s2)
  moreover have "list_all P (evs @ evs')"
    using evs evs' by simp
  ultimately show ?thesis
    unfolding extends_def by blast
qed

lemma extends_mono: "extends P s s1 \<Longrightarrow> (\<And>ev. P ev \<Longrightarrow> Q ev) \<Longrightarrow> extends Q s s1"
proof -
  assume "extends P s s1" and imp: "\<And>ev. P ev \<Longrightarrow> Q ev"
  then obtain evs k where s1: "s1 = s\<lparr>currThrIdx := k, trace := trace s @ evs\<rparr>"
    and evs: "list_all P evs"
    unfolding extends_def by blast
  from evs imp have "list_all Q evs"
    by (induction evs) auto
  with s1 show ?thesis
    unfolding extends_def by blast
qed

lemma extends_frame:
  "extends P s s1 \<Longrightarrow> sigmask s1 = sigmask s \<and> threads s1 = threads s \<and> contexts s1 = contexts s"
  unfolding extends_def by auto

lemma extends_trace:
  "extends P s s1 \<Longrightarrow> \<exists>evs. trace s1 = trace s @ evs \<and> list_all P evs"
  unfolding extends_def by auto

subsection \<open>What the sections of creation leave unchanged\<close>

text \<open>
  No section before the spawn touches the signal mask, the threads or the contexts:
  each one only adds events to the trace (and, on Zephyr, takes a stack).
\<close>

lemma create_stack_extends:
  "case create_stack cfg e sz s of
     Abort f \<Rightarrow> False
   | Goto_err s1 \<Rightarrow> extends config_event s s1
   | Next s1 \<Rightarrow> extends config_event s s1"
  by (simp add: create_stack_def Let_def extends_refl extends_emit extends_idx config_event_def
      split: option.splits)

lemma sched_query_extends:
  "case sched_query cfg e s of
     Abort f \<Rightarrow> False
   | Goto_err s1 \<Rightarrow> extends (\<lambda>ev. True) s s1
   | Next (pol, pri, s1) \<Rightarrow> extends (\<lambda>ev. True) s s1"
  by (simp add: sched_query_def Let_def extends_refl extends_emit)

lemma sched_apply_extends:
  "case sched_apply cfg e tattr pol pri s of
     Abort f \<Rightarrow> False
   | Goto_err s1 \<Rightarrow> extends (\<lambda>ev. True) s s1
   | Next s1 \<Rightarrow> extends (\<lambda>ev. True) s s1"
  by (simp add: sched_apply_def Let_def extends_refl extends_emit)

lemma create_sched_extends:
  "case create_sched cfg e tattr s of
     Abort f \<Rightarrow> True
   | Goto_err s1 \<Rightarrow> extends (\<lambda>ev. True) s s1
   | Next s1 \<Rightarrow> extends (\<lambda>ev. True) s s1"
proof (cases "platform cfg \<noteq> Zephyr \<and> schedClass tattr = DDSRT_SCHED_DEFAULT")
  case True
  then show ?thesis
    by (simp add: create_sched_def extends_refl extends_emit)
next
  case False
  have unfold: "create_sched cfg e tattr s =
      bind_step (sched_query cfg e s) (\<lambda>(policy0, prio0, s1).
          (case schedClass tattr of
             DDSRT_SCHED_DEFAULT \<Rightarrow>
               (if platform cfg \<noteq> Zephyr then Abort Assert_failed
                else sched_apply cfg e tattr policy0 prio0 s1)
           | DDSRT_SCHED_REALTIME \<Rightarrow> sched_apply cfg e tattr (sched_fifo cfg) prio0 s1
           | DDSRT_SCHED_TIMESHARE \<Rightarrow> sched_apply cfg e tattr (sched_other cfg) prio0 s1))"
    unfolding create_sched_def using False by (simp only: if_False)
  show ?thesis
  proof (cases "sched_query cfg e s")
    case (Abort f)
    then show ?thesis
      by (simp add: unfold bind_step_def)
  next
    case (Goto_err s1)
    with sched_query_extends [where cfg = cfg and e = e and s = s] show ?thesis
      by (simp add: unfold bind_step_def)
  next
    case (Next q)
    obtain pol pri s1 where q: "q = (pol, pri, s1)"
      by (cases q)
    from sched_query_extends [where cfg = cfg and e = e and s = s] Next q have ext: "extends (\<lambda>ev. True) s s1"
      by simp
    have step: "case sched_apply cfg e tattr p pri s1 of
        Abort f \<Rightarrow> True
      | Goto_err s2 \<Rightarrow> extends (\<lambda>ev. True) s s2
      | Next s2 \<Rightarrow> extends (\<lambda>ev. True) s s2" for p
      using sched_apply_extends [where cfg = cfg and e = e and tattr = tattr and pol = p
          and pri = pri and s = s1] extends_trans [OF ext]
      by (cases "sched_apply cfg e tattr p pri s1") simp_all
    show ?thesis
      using Next q step [of pol] step [of "sched_fifo cfg"] step [of "sched_other cfg"]
      by (cases "schedClass tattr") (simp_all add: unfold bind_step_def)
  qed
qed

lemma create_affinity_extends:
  "case create_affinity cfg e tattr s of
     Abort f \<Rightarrow> False
   | Goto_err s1 \<Rightarrow> extends (\<lambda>ev. True) s s1
   | Next s1 \<Rightarrow> extends (\<lambda>ev. True) s s1"
  by (simp add: create_affinity_def Let_def extends_refl extends_emit split: sum.splits)

lemma bind_step_extends:
  assumes "case m of Abort f \<Rightarrow> True | Goto_err s1 \<Rightarrow> extends P s s1 | Next s1 \<Rightarrow> extends P s s1"
    and "\<And>s1. case g s1 of Abort f \<Rightarrow> True | Goto_err s2 \<Rightarrow> extends P s1 s2
                 | Next s2 \<Rightarrow> extends P s1 s2"
  shows "case bind_step m g of Abort f \<Rightarrow> True | Goto_err s2 \<Rightarrow> extends P s s2
           | Next s2 \<Rightarrow> extends P s s2"
proof (cases m)
  case (Abort f)
  then show ?thesis by (simp add: bind_step_def)
next
  case (Goto_err s1)
  with assms(1) show ?thesis by (simp add: bind_step_def)
next
  case (Next s1)
  with assms(1) have "extends P s s1" by simp
  with assms(2) [of s1] Next show ?thesis
    by (auto simp: bind_step_def split: step.splits intro: extends_trans)
qed

lemma create_configure_extends:
  "case create_configure cfg e nm tattr s of
     Abort f \<Rightarrow> True
   | Goto_err s1 \<Rightarrow> extends (\<lambda>ev. True) s s1
   | Next s1 \<Rightarrow> extends (\<lambda>ev. True) s s1"
proof -
  let ?P = "\<lambda>ev::event. True"
  define s1 where "s1 = (if platform cfg = VxWorks then emit (Pthread_attr_setname nm) s else s)"
  define s2 where "s2 = (if platform cfg \<noteq> Zephyr then emit Pthread_attr_setscope s1 else s1)"
  define s3 where "s3 = emit Pthread_attr_setdetachstate s2"
  have e2: "extends ?P s s2"
    by (simp add: s1_def s2_def extends_refl extends_emit)
  then have e3: "extends ?P s s3"
    by (simp add: s3_def extends_emit)
  have stack: "case create_stack cfg e (stackSize tattr) s3 of
      Abort f \<Rightarrow> True | Goto_err s4 \<Rightarrow> extends ?P s3 s4 | Next s4 \<Rightarrow> extends ?P s3 s4"
    using create_stack_extends [where cfg = cfg and e = e and sz = "stackSize tattr" and s = s3]
    by (auto split: step.splits intro: extends_mono)
  have rest: "case bind_step (create_stack cfg e (stackSize tattr) s3) (\<lambda>s4.
                 bind_step (create_sched cfg e tattr s4) (\<lambda>s5.
                 create_affinity cfg e tattr s5)) of
      Abort f \<Rightarrow> True | Goto_err s6 \<Rightarrow> extends ?P s3 s6 | Next s6 \<Rightarrow> extends ?P s3 s6"
  proof (rule bind_step_extends [OF stack])
    fix s4
    show "case bind_step (create_sched cfg e tattr s4) (\<lambda>s5. create_affinity cfg e tattr s5) of
        Abort f \<Rightarrow> True | Goto_err s6 \<Rightarrow> extends ?P s4 s6 | Next s6 \<Rightarrow> extends ?P s4 s6"
    proof (rule bind_step_extends [OF create_sched_extends])
      fix s5
      show "case create_affinity cfg e tattr s5 of
          Abort f \<Rightarrow> True | Goto_err s6 \<Rightarrow> extends ?P s5 s6 | Next s6 \<Rightarrow> extends ?P s5 s6"
        using create_affinity_extends [where cfg = cfg and e = e and tattr = tattr and s = s5]
        by (auto split: step.splits)
    qed
  qed
  have unfold: "create_configure cfg e nm tattr s =
      (if platform cfg \<noteq> Zephyr \<and> setscope_err e \<noteq> 0 then Goto_err s2
       else if setdetachstate_err e \<noteq> 0 then Goto_err s3
       else bind_step (create_stack cfg e (stackSize tattr) s3) (\<lambda>s4.
                 bind_step (create_sched cfg e tattr s4) (\<lambda>s5.
                 create_affinity cfg e tattr s5)))"
    by (simp add: create_configure_def Let_def s1_def s2_def s3_def)
  show ?thesis
    using e2 e3 rest unfolding unfold
    by (auto split: step.splits intro: extends_trans)
qed

subsection \<open>The signal mask of the creator\<close>

lemma create_spawn_sigmask:
  "create_spawn cfg e nm r a s = (rc, h, s') \<Longrightarrow>
   sigmask s' = (if platform cfg \<noteq> Zephyr \<and> create_err e \<noteq> 0
                 then sigmask s \<union> (UNIV - {sigxcpu cfg}) else sigmask s)"
  by (auto simp: create_spawn_def emit_def Let_def split: if_splits)

lemma create_spawn_code:
  "create_spawn cfg e nm r a s = (rc, h, s') \<Longrightarrow>
   rc = (if create_err e \<noteq> 0 then DDS_RETCODE_ERROR else DDS_RETCODE_OK)"
  by (auto simp: create_spawn_def Let_def split: if_splits)

lemma ddsrt_thread_create_unfold:
  "ddsrt_thread_create cfg e nm attr rtn a s =
     (if rtn = None then Inl Assert_failed
      else if platform cfg = Zephyr \<and> stackSize attr \<noteq> 0 \<and>
              thread_stack_size cfg < stackSize attr
        then Inr (DDS_RETCODE_ERROR, None,
                  emit (DDS_ERROR ''requested stack size exceeds maximum size'') s)
      else if attr_init_err e \<noteq> 0 then Inr (DDS_RETCODE_ERROR, None, emit Pthread_attr_init s)
      else
        (case create_configure cfg e nm
                (if platform cfg = Zephyr then attr\<lparr>stackSize := thread_stack_size cfg\<rparr> else attr)
                (emit Pthread_attr_init s) of
           Abort f \<Rightarrow> Inl f
         | Goto_err s1 \<Rightarrow> Inr (DDS_RETCODE_ERROR, None, emit Pthread_attr_destroy s1)
         | Next s1 \<Rightarrow> Inr (create_spawn cfg e nm rtn a s1)))"
  by (simp add: ddsrt_thread_create_def Let_def)

lemma sigmask_emit: "sigmask (emit ev s) = sigmask s"
  by (simp add: emit_def)

lemma ddsrt_thread_create_Inr:
  assumes "ddsrt_thread_create cfg e nm attr rtn a s = Inr r"
  shows "r = (DDS_RETCODE_ERROR, None,
              emit (DDS_ERROR ''requested stack size exceeds maximum size'') s) \<or>
         r = (DDS_RETCODE_ERROR, None, emit Pthread_attr_init s) \<or>
         (\<exists>s1. create_configure cfg e nm
                 (if platform cfg = Zephyr then attr\<lparr>stackSize := thread_stack_size cfg\<rparr> else attr)
                 (emit Pthread_attr_init s) = Goto_err s1 \<and>
               r = (DDS_RETCODE_ERROR, None, emit Pthread_attr_destroy s1)) \<or>
         (\<exists>s1. create_configure cfg e nm
                 (if platform cfg = Zephyr then attr\<lparr>stackSize := thread_stack_size cfg\<rparr> else attr)
                 (emit Pthread_attr_init s) = Next s1 \<and>
               attr_init_err e = 0 \<and> r = create_spawn cfg e nm rtn a s1)"
proof (cases "create_configure cfg e nm
                 (if platform cfg = Zephyr then attr\<lparr>stackSize := thread_stack_size cfg\<rparr> else attr)
                 (emit Pthread_attr_init s)")
  case (Abort f)
  from assms show ?thesis
    unfolding ddsrt_thread_create_unfold Abort by (simp split: if_split_asm)
next
  case (Goto_err s1)
  from assms show ?thesis
    unfolding ddsrt_thread_create_unfold Goto_err by (simp split: if_split_asm)
next
  case (Next s1)
  from assms show ?thesis
    unfolding ddsrt_thread_create_unfold Next by (simp split: if_split_asm)
qed

text \<open>
  Whenever \<^verbatim>\<open>ddsrt_thread_create\<close> returns, the creator's signal mask is the one from
  before the call, except on one path: outside Zephyr, when \<^verbatim>\<open>pthread_create\<close> fails, the
  signals blocked for the spawn stay blocked.
\<close>

lemma create_sigmask:
  assumes "ddsrt_thread_create cfg e nm attr rtn a s = Inr (rc, h, s')"
  shows "sigmask s' = sigmask s \<or>
         (platform cfg \<noteq> Zephyr \<and> create_err e \<noteq> 0 \<and> rc = DDS_RETCODE_ERROR \<and>
          sigmask s' = sigmask s \<union> (UNIV - {sigxcpu cfg}))"
proof -
  let ?tattr = "if platform cfg = Zephyr then attr\<lparr>stackSize := thread_stack_size cfg\<rparr> else attr"
  let ?s0 = "emit Pthread_attr_init s"
  note ext = create_configure_extends [where cfg = cfg and e = e and nm = nm
      and tattr = ?tattr and s = ?s0]
  from ddsrt_thread_create_Inr [OF assms]
  consider
      (early) ev where "s' = emit ev s"
    | (err) s1 where "create_configure cfg e nm ?tattr ?s0 = Goto_err s1"
        and "s' = emit Pthread_attr_destroy s1"
    | (spawn) s1 where "create_configure cfg e nm ?tattr ?s0 = Next s1"
        and "create_spawn cfg e nm rtn a s1 = (rc, h, s')"
    by auto
  then show ?thesis
  proof cases
    case early
    then show ?thesis
      by (simp add: sigmask_emit)
  next
    case err
    with ext have "sigmask s1 = sigmask ?s0"
      by (simp add: extends_frame)
    with err show ?thesis
      by (simp add: sigmask_emit)
  next
    case spawn
    with ext have "sigmask s1 = sigmask s"
      by (simp add: extends_frame sigmask_emit)
    with create_spawn_sigmask [OF spawn(2)] create_spawn_code [OF spawn(2)] show ?thesis
      by (simp split: if_splits)
  qed
qed

lemma create_success_restores_sigmask:
  assumes "ddsrt_thread_create cfg e nm attr rtn a s = Inr (DDS_RETCODE_OK, h, s')"
  shows "sigmask s' = sigmask s"
  using create_sigmask [OF assms] by auto

subsection \<open>A priority without a scheduling class\<close>

lemma config_event_quiet: "config_event ev \<Longrightarrow> \<not> sched_call ev \<and> \<not> spawn_call ev"
  by (cases ev) (simp_all add: config_event_def sched_call_def spawn_call_def)

lemma create_configure_default_priority:
  assumes "platform cfg \<noteq> Zephyr" and "schedClass tattr = DDSRT_SCHED_DEFAULT"
    and "schedPriority tattr \<noteq> 0"
  shows "\<exists>s1. create_configure cfg e nm tattr s = Goto_err s1 \<and> extends config_event s s1"
proof -
  define s1 where "s1 = (if platform cfg = VxWorks then emit (Pthread_attr_setname nm) s else s)"
  define s2 where "s2 = emit Pthread_attr_setscope s1"
  define s3 where "s3 = emit Pthread_attr_setdetachstate s2"
  have e2: "extends config_event s s2"
    by (simp add: s1_def s2_def extends_refl extends_emit config_event_def)
  then have e3: "extends config_event s s3"
    by (simp add: s3_def extends_emit config_event_def)
  have unfold: "create_configure cfg e nm tattr s =
      (if setscope_err e \<noteq> 0 then Goto_err s2
       else if setdetachstate_err e \<noteq> 0 then Goto_err s3
       else bind_step (create_stack cfg e (stackSize tattr) s3) (\<lambda>s4.
                 bind_step (create_sched cfg e tattr s4) (\<lambda>s5.
                 create_affinity cfg e tattr s5)))"
    using assms(1) by (simp add: create_configure_def Let_def s1_def s2_def s3_def)
  have sched: "create_sched cfg e tattr s4 =
      Goto_err (emit (DDS_ERROR ''schedClass DEFAULT but priority != 0 is unsupported'') s4)" for s4
    using assms by (simp add: create_sched_def)
  have rest: "\<exists>s6. bind_step (create_stack cfg e (stackSize tattr) s3) (\<lambda>s4.
                 bind_step (create_sched cfg e tattr s4) (\<lambda>s5.
                 create_affinity cfg e tattr s5)) = Goto_err s6 \<and> extends config_event s s6"
  proof (cases "create_stack cfg e (stackSize tattr) s3")
    case (Abort f)
    with create_stack_extends [where cfg = cfg and e = e and sz = "stackSize tattr" and s = s3]
    show ?thesis by simp
  next
    case (Goto_err s4)
    with create_stack_extends [where cfg = cfg and e = e and sz = "stackSize tattr" and s = s3]
    have "extends config_event s3 s4" by simp
    with e3 have "extends config_event s s4" by (rule extends_trans)
    with Goto_err show ?thesis by (simp add: bind_step_def)
  next
    case (Next s4)
    with create_stack_extends [where cfg = cfg and e = e and sz = "stackSize tattr" and s = s3]
    have "extends config_event s3 s4" by simp
    with e3 have "extends config_event s s4" by (rule extends_trans)
    then have "extends config_event s
        (emit (DDS_ERROR ''schedClass DEFAULT but priority != 0 is unsupported'') s4)"
      by (rule extends_emit) (simp add: config_event_def)
    with Next show ?thesis by (simp add: bind_step_def sched)
  qed
  show ?thesis
    using e2 e3 rest unfolding unfold by simp
qed

text \<open>
  Claim C3, as amended. On every platform but Zephyr, for every descriptor with class
  Default and a priority other than 0, \<^verbatim>\<open>ddsrt_thread_create\<close> returns ERROR whatever the
  library calls answer; among the calls it has made there is none that reads or sets
  a scheduling policy or priority and no \<^verbatim>\<open>pthread_create\<close>, and the set of threads is
  unchanged. (The start routine is not \<^verbatim>\<open>NULL\<close>, as the source asserts.)
\<close>

theorem create_rejects_priority_without_class:
  assumes "platform cfg \<noteq> Zephyr" and "rtn \<noteq> None"
    and "schedClass attr = DDSRT_SCHED_DEFAULT" and "schedPriority attr \<noteq> 0"
  shows "\<exists>s' evs. ddsrt_thread_create cfg e nm attr rtn a s = Inr (DDS_RETCODE_ERROR, None, s') \<and>
           threads s' = threads s \<and> trace s' = trace s @ evs \<and>
           list_all (\<lambda>ev. \<not> sched_call ev \<and> \<not> spawn_call ev) evs"
proof -
  let ?s0 = "emit Pthread_attr_init s"
  let ?quiet = "\<lambda>ev. \<not> sched_call ev \<and> \<not> spawn_call ev"
  have "extends config_event s ?s0"
    by (rule extends_emit [OF extends_refl]) (simp add: config_event_def)
  then have q0: "extends ?quiet s ?s0"
    by (rule extends_mono) (rule config_event_quiet)
  have result: "\<exists>s'. ddsrt_thread_create cfg e nm attr rtn a s = Inr (DDS_RETCODE_ERROR, None, s') \<and>
      extends ?quiet s s'"
  proof (cases "attr_init_err e \<noteq> 0")
    case True
    with assms(1,2) q0 show ?thesis
      by (simp add: ddsrt_thread_create_unfold)
  next
    case False
    from create_configure_default_priority [OF assms(1,3,4), of e nm ?s0]
    obtain s1 where cfg1: "create_configure cfg e nm attr ?s0 = Goto_err s1"
      and ext1: "extends config_event ?s0 s1"
      by blast
    from ext1 have "extends ?quiet ?s0 s1"
      by (rule extends_mono) (rule config_event_quiet)
    with q0 have "extends ?quiet s s1"
      by (rule extends_trans)
    then have "extends ?quiet s (emit Pthread_attr_destroy s1)"
      by (rule extends_emit) (simp add: sched_call_def spawn_call_def)
    with assms(1,2) False cfg1 show ?thesis
      by (simp add: ddsrt_thread_create_unfold)
  qed
  then obtain s' where r: "ddsrt_thread_create cfg e nm attr rtn a s = Inr (DDS_RETCODE_ERROR, None, s')"
    and ext: "extends ?quiet s s'"
    by blast
  from extends_trace [OF ext] extends_frame [OF ext] r show ?thesis
    by auto
qed



theorem create_rejects_priority_without_class_witness:
  "\<exists>s' evs. ddsrt_thread_create cfg_linux calls_all_ok ''worker'' attr_default_prio5 (Some 7) 0 proc0 =
       Inr (DDS_RETCODE_ERROR, None, s') \<and>
     threads s' = threads proc0 \<and> trace s' = trace proc0 @ evs \<and>
     list_all (\<lambda>ev. \<not> sched_call ev \<and> \<not> spawn_call ev) evs"
  by (rule create_rejects_priority_without_class) (simp_all add: input_defs)

text \<open>
  Zephyr has no such check. There the scheduling section of a descriptor with class
  Default queries the attribute object, makes no policy call, and hands over the
  requested priority when it lies in the range of the attribute object's policy, or
  else, after a warning, the priority of the attribute object.
\<close>

lemma create_sched_zephyr_default:
  assumes "platform cfg = Zephyr" and "schedClass tattr = DDSRT_SCHED_DEFAULT"
    and "attr_getschedparam_err e = 0" and "attr_getschedpolicy_err e = 0"
    and "setschedparam_err e = 0"
  shows "create_sched cfg e tattr s =
           Next (s\<lparr>trace := trace s @
             [Pthread_attr_getschedparam, Pthread_attr_getschedpolicy] @
             (if priority_in_range e (attr_policy e) (schedPriority tattr) then []
              else [DDS_WARNING
                ''requested thread priority invalid for policy, fall-back to default'']) @
             [Pthread_attr_setschedparam
                (if priority_in_range e (attr_policy e) (schedPriority tattr)
                 then schedPriority tattr else attr_priority e)]\<rparr>)"
  using assms
  by (simp add: create_sched_def sched_query_def sched_apply_def bind_step_def Let_def emit_def
      priority_in_range_def)

text \<open>
  Claim C3 as stated speaks of every build; it fails on Zephyr, where the source
  compiles the check out (``for Zephyr SCHED_DEFAULT is either SCHED_RR or SCHED_FIFO,
  both realtime classes that take a priority''): class Default with priority 5 is
  accepted, the priority is applied and the thread is spawned.
\<close>

theorem create_default_priority_zephyr_counterexample:
  "schedClass attr_default_prio5 = DDSRT_SCHED_DEFAULT \<and>
   schedPriority attr_default_prio5 \<noteq> 0 \<and>
   result_code (ddsrt_thread_create cfg_zephyr calls_zephyr_ok ''worker'' attr_default_prio5
      (Some 7) 0 proc0) = Some DDS_RETCODE_OK \<and>
   result_trace (ddsrt_thread_create cfg_zephyr calls_zephyr_ok ''worker'' attr_default_prio5
      (Some 7) 0 proc0) =
     [Pthread_attr_init, Pthread_attr_setdetachstate, Pthread_attr_setstack 0 32768,
      Pthread_attr_getschedparam, Pthread_attr_getschedpolicy, Pthread_attr_setschedparam 5,
      Pthread_create 4096, Pthread_attr_destroy]"
  by (simp add: result_code_def result_trace_def create_defs Let_def input_defs)

text \<open>
  Claim C1 at a failing input. A Linux thread with no signal blocked calls
  \<^verbatim>\<open>ddsrt_thread_create\<close> with default attributes and \<^verbatim>\<open>pthread_create\<close> fails with
  \<^verbatim>\<open>EAGAIN\<close>: the call returns ERROR and the creator is left with every signal but
  \<^verbatim>\<open>SIGXCPU\<close> (24) blocked. The jump to \<^verbatim>\<open>err_create\<close> passes over the
  \<^verbatim>\<open>sigprocmask (SIG_SETMASK, &oset, NULL)\<close> that the success path runs.
\<close>

theorem create_failure_leaves_signals_blocked:
  "result_code (ddsrt_thread_create cfg_linux calls_spawn_fails ''worker''
       ddsrt_threadattr_init (Some 7) 0 proc0) = Some DDS_RETCODE_ERROR \<and>
   result_sigmask (ddsrt_thread_create cfg_linux calls_spawn_fails ''worker''
       ddsrt_threadattr_init (Some 7) 0 proc0) = Some (UNIV - {24}) \<and>
   sigmask proc0 = {}"
  by (simp add: result_code_def result_sigmask_def create_defs Let_def input_defs)

subsection \<open>A priority outside the range of the policy\<close>

lemma config_event_not_sched_note: "config_event ev \<Longrightarrow> \<not> sched_note ev"
  by (cases ev) (simp_all add: config_event_def sched_note_def sched_call_def priority_note_def)

lemma create_stack_succeeds:
  assumes "setstacksize_err e = 0" and "setstack_err e = 0"
    and "platform cfg = Zephyr \<Longrightarrow> sz = 0 \<or> currThrIdx s < thread_count cfg"
  shows "\<exists>s1. create_stack cfg e sz s = Next s1 \<and> extends config_event s s1"
proof (cases "create_stack cfg e sz s")
  case (Abort f)
  with create_stack_extends [where cfg = cfg and e = e and sz = sz and s = s] show ?thesis
    by simp
next
  case (Goto_err s1)
  with assms show ?thesis
    by (auto simp: create_stack_def Let_def split: if_splits)
next
  case (Next s1)
  with create_stack_extends [where cfg = cfg and e = e and sz = sz and s = s] show ?thesis
    by simp
qed

text \<open>The scheduling section when a class is given and the library accepts every call.\<close>

lemma create_sched_succeeds:
  assumes "schedClass tattr \<noteq> DDSRT_SCHED_DEFAULT"
    and "getschedparam_err e = 0" and "attr_getschedparam_err e = 0"
    and "attr_getschedpolicy_err e = 0" and "setschedpolicy_err e = 0"
    and "setschedparam_err e = 0" and "setinheritsched_err e = 0"
  shows "create_sched cfg e tattr s = Next (s\<lparr>trace := trace s @ sched_events cfg e tattr\<rparr>)"
proof -
  let ?pol = "mapped_policy cfg (schedClass tattr)"
  let ?query = "if platform cfg \<noteq> Zephyr then [Pthread_getschedparam]
     else [Pthread_attr_getschedparam, Pthread_attr_getschedpolicy]"
  have query: "sched_query cfg e s =
      Next (if platform cfg \<noteq> Zephyr then self_policy e else attr_policy e,
            ambient_priority cfg e, s\<lparr>trace := trace s @ ?query\<rparr>)"
    using assms(2-4) by (simp add: sched_query_def Let_def emit_def ambient_priority_def)
  have app: "sched_apply cfg e tattr ?pol (ambient_priority cfg e) (s\<lparr>trace := trace s @ ?query\<rparr>) =
      Next (s\<lparr>trace := trace s @ sched_events cfg e tattr\<rparr>)"
    using assms(1,5-7)
    by (simp add: sched_apply_def Let_def emit_def priority_in_range_def sched_events_def)
  show ?thesis
  proof (cases "schedClass tattr")
    case DDSRT_SCHED_DEFAULT
    with assms(1) show ?thesis by simp
  next
    case DDSRT_SCHED_REALTIME
    with app show ?thesis
      by (simp add: create_sched_def query bind_step_def mapped_policy_def)
  next
    case DDSRT_SCHED_TIMESHARE
    with app show ?thesis
      by (simp add: create_sched_def query bind_step_def mapped_policy_def)
  qed
qed

lemma create_spawn_succeeds:
  assumes "create_err e = 0"
  shows "\<exists>s' evs m. create_spawn cfg e nm rtn a s = (DDS_RETCODE_OK, Some (new_thread e), s') \<and>
           trace s' = trace s @ evs \<and> filter sched_note evs = [] \<and>
           fmlookup (threads s') (new_thread e) = Some (Runnable (malloc_result e) m) \<and>
           fmlookup (contexts s') (malloc_result e) =
             Some \<lparr>ctx_name = nm, ctx_routine = rtn, ctx_arg = a\<rparr>"
proof (cases "platform cfg \<noteq> Zephyr")
  case True
  let ?evs = "[Sigprocmask_block (UNIV - {sigxcpu cfg}), Pthread_create (malloc_result e),
               Sigprocmask_setmask (sigmask s), Pthread_attr_destroy]"
  have "filter sched_note ?evs = []"
    by (simp add: sched_note_def sched_call_def priority_note_def)
  moreover have "\<exists>s' m. create_spawn cfg e nm rtn a s = (DDS_RETCODE_OK, Some (new_thread e), s') \<and>
      trace s' = trace s @ ?evs \<and>
      fmlookup (threads s') (new_thread e) = Some (Runnable (malloc_result e) m) \<and>
      fmlookup (contexts s') (malloc_result e) =
        Some \<lparr>ctx_name = nm, ctx_routine = rtn, ctx_arg = a\<rparr>"
    using assms True by (simp add: create_spawn_def Let_def emit_def)
  ultimately show ?thesis
    by blast
next
  case False
  let ?evs = "[Pthread_create (malloc_result e), Pthread_attr_destroy]"
  have "filter sched_note ?evs = []"
    by (simp add: sched_note_def sched_call_def priority_note_def)
  moreover have "\<exists>s' m. create_spawn cfg e nm rtn a s = (DDS_RETCODE_OK, Some (new_thread e), s') \<and>
      trace s' = trace s @ ?evs \<and>
      fmlookup (threads s') (new_thread e) = Some (Runnable (malloc_result e) m) \<and>
      fmlookup (contexts s') (malloc_result e) =
        Some \<lparr>ctx_name = nm, ctx_routine = rtn, ctx_arg = a\<rparr>"
    using assms False by (simp add: create_spawn_def Let_def emit_def)
  ultimately show ?thesis
    by blast
qed

lemma extends_filter:
  assumes "extends config_event s s1"
  shows "\<exists>evs. trace s1 = trace s @ evs \<and> filter sched_note evs = []"
proof -
  from extends_trace [OF assms] obtain evs where
    t: "trace s1 = trace s @ evs" and c: "list_all config_event evs"
    by blast
  from c have "filter sched_note evs = []"
    by (induction evs) (auto dest: config_event_not_sched_note)
  with t show ?thesis
    by blast
qed

text \<open>
  What creation does with a priority when the library accepts every call it is given.
  For a descriptor with class Realtime or Timeshare (no affinity requested, and on
  Zephyr a stack available) creation returns OK, and its scheduling calls and warnings
  are exactly \<open>sched_events\<close>: the mapped policy is set; in range, the priority call
  carries the requested priority and no warning is logged; out of range, one warning
  is logged and the priority call carries the priority that the query returned (the
  creator's own, or on Zephyr that of the attribute object).
\<close>

lemma create_priority_when_accepted:
  assumes "schedClass attr \<noteq> DDSRT_SCHED_DEFAULT" and "rtn \<noteq> None"
    and "calls_succeed e" and "schedAffinitySet attr = []"
    and "stack_available cfg attr s"
  shows "\<exists>s' evs.
           ddsrt_thread_create cfg e nm attr rtn a s =
             Inr (DDS_RETCODE_OK, Some (new_thread e), s') \<and>
           trace s' = trace s @ evs \<and>
           filter sched_note evs = sched_events cfg e attr"
proof -
  define tattr where
    "tattr = (if platform cfg = Zephyr then attr\<lparr>stackSize := thread_stack_size cfg\<rparr> else attr)"
  define s0 where "s0 = emit Pthread_attr_init s"
  have ok: "attr_init_err e = 0" "setscope_err e = 0" "setdetachstate_err e = 0"
    "setstacksize_err e = 0" "setstack_err e = 0" "getschedparam_err e = 0"
    "attr_getschedparam_err e = 0" "attr_getschedpolicy_err e = 0"
    "setschedpolicy_err e = 0" "setschedparam_err e = 0" "setinheritsched_err e = 0"
    "create_err e = 0"
    using assms(3) by (simp_all add: calls_succeed_def)
  have tattr: "schedClass tattr = schedClass attr" "schedPriority tattr = schedPriority attr"
    "schedAffinitySet tattr = []"
    using assms(4) by (simp_all add: tattr_def)
  have events: "sched_events cfg e tattr = sched_events cfg e attr"
    by (simp add: sched_events_def tattr)
  define s1 where "s1 = (if platform cfg = VxWorks then emit (Pthread_attr_setname nm) s0 else s0)"
  define s2 where "s2 = (if platform cfg \<noteq> Zephyr then emit Pthread_attr_setscope s1 else s1)"
  define s3 where "s3 = emit Pthread_attr_setdetachstate s2"
  have e3: "extends config_event s s3"
    by (simp add: s0_def s1_def s2_def s3_def extends_refl extends_emit config_event_def)
  have idx3: "currThrIdx s3 = currThrIdx s"
    by (simp add: s0_def s1_def s2_def s3_def emit_def)
  have "platform cfg = Zephyr \<Longrightarrow> stackSize tattr = 0 \<or> currThrIdx s3 < thread_count cfg"
    using assms(5) by (simp add: stack_available_def idx3 tattr_def)
  from create_stack_succeeds [OF ok(4,5) this]
  obtain s4 where stack: "create_stack cfg e (stackSize tattr) s3 = Next s4"
    and e4: "extends config_event s3 s4"
    by blast
  from extends_filter [OF extends_trans [OF e3 e4]]
  obtain evs4 where t4: "trace s4 = trace s @ evs4" and f4: "filter sched_note evs4 = []"
    by blast
  have "schedClass tattr \<noteq> DDSRT_SCHED_DEFAULT"
    using assms(1) tattr(1) by simp
  from create_sched_succeeds [OF this ok(6-11), of cfg s4] events
  have sched: "create_sched cfg e tattr s4 =
      Next (s4\<lparr>trace := trace s4 @ sched_events cfg e attr\<rparr>)"
    by simp
  define s5 where "s5 = s4\<lparr>trace := trace s4 @ sched_events cfg e attr\<rparr>"
  have t5: "trace s5 = trace s @ evs4 @ sched_events cfg e attr"
    by (simp add: s5_def t4)
  have f5: "filter sched_note (sched_events cfg e attr) = sched_events cfg e attr"
    by (simp add: sched_events_def sched_note_def sched_call_def priority_note_def)
  have aff: "create_affinity cfg e tattr s5 = Next s5"
    using tattr(3) by (simp add: create_affinity_def)
  have unfold: "create_configure cfg e nm tattr s0 =
      (if platform cfg \<noteq> Zephyr \<and> setscope_err e \<noteq> 0 then Goto_err s2
       else if setdetachstate_err e \<noteq> 0 then Goto_err s3
       else bind_step (create_stack cfg e (stackSize tattr) s3) (\<lambda>s4.
                 bind_step (create_sched cfg e tattr s4) (\<lambda>s5.
                 create_affinity cfg e tattr s5)))"
    by (simp add: create_configure_def Let_def s1_def s2_def s3_def)
  have configure: "create_configure cfg e nm tattr s0 = Next s5"
    unfolding unfold using ok(2,3) stack sched aff by (simp add: bind_step_def s5_def)
  from create_spawn_succeeds [OF ok(12), of cfg nm rtn a s5]
  obtain s' evs6 where spawn: "create_spawn cfg e nm rtn a s5 =
      (DDS_RETCODE_OK, Some (new_thread e), s')"
    and t6: "trace s' = trace s5 @ evs6" and f6: "filter sched_note evs6 = []"
    by blast
  have zephyr: "\<not> (platform cfg = Zephyr \<and> stackSize attr \<noteq> 0 \<and>
      thread_stack_size cfg < stackSize attr)"
    using assms(5) by (auto simp: stack_available_def)
  have "ddsrt_thread_create cfg e nm attr rtn a s =
      Inr (DDS_RETCODE_OK, Some (new_thread e), s')"
    unfolding ddsrt_thread_create_unfold tattr_def [symmetric] s0_def [symmetric]
    using assms(2) zephyr ok(1) configure spawn by simp
  moreover have "trace s' = trace s @ (evs4 @ sched_events cfg e attr @ evs6)"
    using t5 t6 by simp
  moreover have "filter sched_note (evs4 @ sched_events cfg e attr @ evs6) = sched_events cfg e attr"
    using f4 f5 f6 by simp
  ultimately show ?thesis
    by blast
qed

text \<open>
  Claim C4 at a failing input. A Linux thread that runs under \<^verbatim>\<open>SCHED_OTHER\<close> with
  priority 0 asks for a Realtime thread with priority 1000, outside the range 1 to 99
  of \<^verbatim>\<open>SCHED_FIFO\<close>. The source sets the policy \<^verbatim>\<open>SCHED_FIFO\<close>, logs the warning that it
  falls back to the default, and hands \<^verbatim>\<open>pthread_attr_setschedparam\<close> the priority that
  \<^verbatim>\<open>pthread_getschedparam\<close> gave for the creator, 0, which is itself outside the range of
  the policy just set. The library rejects it, and creation logs an error and returns
  ERROR without a \<^verbatim>\<open>pthread_create\<close>: it has failed because the requested priority was
  out of range.
\<close>

theorem create_fallback_priority_rejected:
  "schedClass attr_realtime_prio1000 = DDSRT_SCHED_REALTIME \<and>
   \<not> priority_in_range calls_fallback_rejected (sched_fifo cfg_linux)
        (schedPriority attr_realtime_prio1000) \<and>
   \<not> priority_in_range calls_fallback_rejected (sched_fifo cfg_linux)
        (self_priority calls_fallback_rejected) \<and>
   result_code (ddsrt_thread_create cfg_linux calls_fallback_rejected ''worker''
      attr_realtime_prio1000 (Some 7) 0 proc0) = Some DDS_RETCODE_ERROR \<and>
   result_trace (ddsrt_thread_create cfg_linux calls_fallback_rejected ''worker''
      attr_realtime_prio1000 (Some 7) 0 proc0) =
     [Pthread_attr_init, Pthread_attr_setscope, Pthread_attr_setdetachstate,
      Pthread_getschedparam, Pthread_attr_setschedpolicy 1,
      DDS_WARNING ''requested thread priority invalid for policy, fall-back to default'',
      Pthread_attr_setschedparam 0, DDS_ERROR ''pthread_attr_setschedparam failed'',
      Pthread_attr_destroy]"
  by (simp add: result_code_def result_trace_def create_defs Let_def input_defs
      priority_in_range_def)

subsection \<open>The value that join returns\<close>

lemma mod_ptr_mod_32: "32 \<le> p \<Longrightarrow> (v mod 2 ^ p) mod 2 ^ 32 = (v :: nat) mod 2 ^ 32"
  by (rule mod_mod_cancel) (rule le_imp_power_dvd)

text \<open>
  Claim C7. After a successful \<^verbatim>\<open>ddsrt_thread_create\<close> with routine \<open>f\<close> and argument \<open>a\<close>,
  the new thread runs: it names itself, calls \<open>f\<close> with \<open>a\<close> and exits; then
  \<^verbatim>\<open>ddsrt_thread_join\<close> on the handle returns OK and stores the low 32 bits of the value
  that \<open>f\<close> returned for \<open>a\<close>. The value passes through a \<^verbatim>\<open>uintptr_t\<close>, which is taken to
  have at least 32 bits; outside Zephyr the handle is not zero, as the source asserts.
\<close>

theorem join_yields_low_32_bits:
  assumes "ddsrt_thread_create cfg e nm attr (Some f) a s = Inr (DDS_RETCODE_OK, Some t, s1)"
    and "32 \<le> ptr_bits cfg" and "platform cfg = Zephyr \<or> t \<noteq> 0"
  shows "\<exists>s2 s3. thread_run cfg rt t s1 = Inr s2 \<and>
           trace s2 = trace s1 @
             [Pthread_setname (if platform cfg = Linux then take 15 nm else nm),
              Call_routine f a] \<and>
           ddsrt_thread_join cfg t True s2 =
             Inr (DDS_RETCODE_OK, Some (rt f a mod 2 ^ 32), s3)"
proof -
  from ddsrt_thread_create_Inr [OF assms(1)]
  obtain s0 where spawn: "create_spawn cfg e nm (Some f) a s0 = (DDS_RETCODE_OK, Some t, s1)"
    by auto
  from create_spawn_code [OF spawn] have "create_err e = 0"
    by (simp split: if_splits)
  from create_spawn_succeeds [OF this, of cfg nm "Some f" a s0] spawn
  obtain m where t: "t = new_thread e"
    and thr: "fmlookup (threads s1) t = Some (Runnable (malloc_result e) m)"
    and ctx: "fmlookup (contexts s1) (malloc_result e) =
        Some \<lparr>ctx_name = nm, ctx_routine = Some f, ctx_arg = a\<rparr>"
    by auto
  let ?r = "rt f a mod 2 ^ ptr_bits cfg"
  let ?w = "emit (Call_routine f a) (ddsrt_thread_setname cfg nm s1)"
  let ?s2 = "?w\<lparr>contexts := fmdrop (malloc_result e) (contexts ?w),
               threads := fmupd t (Exited ?r) (threads ?w)\<rparr>"
  have wrapper: "os_startRoutineWrapper cfg rt (malloc_result e) s1 =
      Inr (?r, ?w\<lparr>contexts := fmdrop (malloc_result e) (contexts ?w)\<rparr>)"
    by (simp add: os_startRoutineWrapper_def ctx Let_def)
  have run: "thread_run cfg rt t s1 = Inr ?s2"
    by (simp add: thread_run_def thr wrapper)
  have tr: "trace ?s2 = trace s1 @
      [Pthread_setname (if platform cfg = Linux then take 15 nm else nm), Call_routine f a]"
    by (simp add: emit_def ddsrt_thread_setname_def)
  have "fmlookup (threads (emit (Pthread_join t) ?s2)) t = Some (Exited ?r)"
    by (simp add: emit_def)
  then have "pthread_join cfg t (emit (Pthread_join t) ?s2) =
      Some (0, ?r, (emit (Pthread_join t) ?s2)\<lparr>threads :=
                      fmdrop t (threads (emit (Pthread_join t) ?s2))\<rparr>)"
    by (simp add: pthread_join_def)
  then have "ddsrt_thread_join cfg t True ?s2 =
      Inr (DDS_RETCODE_OK, Some (?r mod 2 ^ 32),
           (emit (Pthread_join t) ?s2)\<lparr>threads :=
              fmdrop t (threads (emit (Pthread_join t) ?s2))\<rparr>)"
    using assms(3) by (auto simp: ddsrt_thread_join_def)
  then have "ddsrt_thread_join cfg t True ?s2 =
      Inr (DDS_RETCODE_OK, Some (rt f a mod 2 ^ 32),
           (emit (Pthread_join t) ?s2)\<lparr>threads :=
              fmdrop t (threads (emit (Pthread_join t) ?s2))\<rparr>)"
    by (simp only: mod_ptr_mod_32 [OF assms(2)])
  with run tr show ?thesis
    by blast
qed

theorem join_yields_low_32_bits_witness:
  "\<exists>s2 s3. thread_run cfg_linux routines_example 7 proc_created = Inr s2 \<and>
     trace s2 = trace proc_created @
       [Pthread_setname (if platform cfg_linux = Linux then take 15 ''worker'' else ''worker''),
        Call_routine 7 0] \<and>
     ddsrt_thread_join cfg_linux 7 True s2 =
       Inr (DDS_RETCODE_OK, Some (routines_example 7 0 mod 2 ^ 32), s3)"
  by (rule join_yields_low_32_bits [where e = calls_all_ok and attr = ddsrt_threadattr_init
        and s = proc0])
    (simp_all add: create_defs Let_def input_defs proc_created_def)

lemma join_example_value: "routines_example 7 0 mod 2 ^ 32 = 3000000000"
  by (simp add: routines_example_def)

section \<open>Properties of enumeration and name lookup\<close>

subsection \<open>The length of decimal text\<close>

lemma dec_length: "n < 10 ^ k \<Longrightarrow> 0 < k \<Longrightarrow> length (dec n) \<le> k"
proof (induction n arbitrary: k rule: dec.induct)
  case (1 n)
  show ?case
  proof (cases "n < 10")
    case True
    with "1.prems" show ?thesis
      by (subst dec.simps) simp
  next
    case False
    with "1.prems" have "k \<noteq> 1"
      by auto
    with "1.prems"(2) obtain j where j: "k = Suc j" and "0 < j"
      by (cases k) auto
    from "1.prems"(1) j have "n div 10 < 10 ^ j"
      by (simp add: less_mult_imp_div_less)
    from "1.IH" [OF False this \<open>0 < j\<close>] have "length (dec (n div 10)) \<le> j" .
    with False j show ?thesis
      by (subst dec.simps) simp
  qed
qed

lemma dec_length_64: "n < 2 ^ 64 \<Longrightarrow> length (dec n) \<le> 20"
proof -
  assume "n < 2 ^ 64"
  moreover have "(2::nat) ^ 64 < 10 ^ 20"
    by simp
  ultimately have "n < 10 ^ 20"
    by (rule less_trans)
  then show ?thesis
    by (rule dec_length) simp
qed

subsection \<open>The count returned by the enumeration\<close>

text \<open>
  Linux: when every entry of the directory is \<^verbatim>\<open>.\<close>, \<^verbatim>\<open>..\<close> or the text of an identifier,
  the loop counts every thread entry, whatever the capacity of the buffer.
\<close>

lemma thread_list_loop_count:
  "\<forall>d \<in> set des. is_dot_entry d \<or> tid_entry cfg d \<Longrightarrow>
   fst (thread_list_loop cfg des tids n) = Some (n + live_count des)"
proof (induction des arbitrary: tids n)
  case Nil
  then show ?case
    by (simp add: live_count_def)
next
  case (Cons d des)
  show ?case
  proof (cases "is_dot_entry d")
    case True
    with Cons show ?thesis
      by (simp add: live_count_def)
  next
    case False
    with Cons.prems have "tid_entry cfg d"
      by simp
    then obtain tid where scan: "scan_ld cfg d = Some (tid, length d)"
      by (auto simp: tid_entry_def split: option.splits)
    from Cons.prems have rest: "\<forall>d \<in> set des. is_dot_entry d \<or> tid_entry cfg d"
      by simp
    from Cons.IH [OF rest] False scan show ?thesis
      by (simp add: live_count_def)
  qed
qed

lemma thread_list_linux_true_count:
  assumes "\<forall>d \<in> set des. is_dot_entry d \<or> tid_entry cfg d" and "0 < live_count des"
  shows "fst (ddsrt_thread_list_linux cfg (Some des) tids) = Inr (live_count des)"
proof -
  from thread_list_loop_count [OF assms(1), of tids 0]
  obtain tids' where "thread_list_loop cfg des tids 0 = (Some (live_count des), tids')"
    by (cases "thread_list_loop cfg des tids 0") simp
  with assms(2) show ?thesis
    by (simp add: ddsrt_thread_list_linux_def)
qed

text \<open>
  QNX: the loop leaves at the capacity of the buffer, so the count returned is the
  smaller of the number of threads and the capacity, and ERROR when that is zero.
\<close>

lemma thread_list_qnx_loop_count:
  "fst (thread_list_qnx_loop num tids tid n) =
     (if n < num \<and> n < length tids then min num (length tids) else n)"
proof (induction num tids tid n rule: thread_list_qnx_loop.induct)
  case (1 num tids tid n)
  show ?case
  proof (cases "n < num \<and> n < length tids")
    case True
    with "1.IH" show ?thesis
      by (subst thread_list_qnx_loop.simps) auto
  next
    case False
    then show ?thesis
      by (subst thread_list_qnx_loop.simps) auto
  qed
qed

lemma thread_list_qnx_count:
  assumes "list_open_ok e" and "list_devctl_ok e" and "\<bar>list_pid e\<bar> < 2 ^ 31"
  shows "fst (ddsrt_thread_list_qnx e tids) =
           (if min (num_threads e) (length tids) = 0 then Inl DDS_RETCODE_ERROR
            else Inr (min (num_threads e) (length tids)))"
proof -
  have "nat \<bar>list_pid e\<bar> < 2 ^ 64"
    using assms(3) by (simp add: nat_less_iff)
  from dec_length_64 [OF this] have "length (dec_int (list_pid e)) \<le> 21"
    by (auto simp: dec_int_def abs_if split: if_splits)
  then have pos: "\<not> 32 \<le> length (''/proc/'' @ dec_int (list_pid e) @ ''/as'')"
    by simp
  have n: "fst (thread_list_qnx_loop (num_threads e) tids 1 0) = min (num_threads e) (length tids)"
    by (simp add: thread_list_qnx_loop_count)
  obtain k tids' where loop: "thread_list_qnx_loop (num_threads e) tids 1 0 = (k, tids')"
    by (cases "thread_list_qnx_loop (num_threads e) tids 1 0")
  with n have "k = min (num_threads e) (length tids)"
    by simp
  with pos assms(1,2) loop show ?thesis
    unfolding ddsrt_thread_list_qnx_def Let_def by simp
qed

text \<open>
  Claim C2 at a failing input. On QNX, for a process with three threads,
  \<^verbatim>\<open>ddsrt_thread_list\<close> with capacity 0 returns ERROR, and with capacity 2 it returns 2:
  not the number of threads, which the Linux and macOS variants return (lemmas
  \<open>thread_list_linux_true_count\<close> and \<open>thread_list_apple_count\<close>).
\<close>

theorem thread_list_qnx_truncates_count:
  "num_threads qnx_three_threads = 3 \<and>
   ddsrt_thread_list_qnx qnx_three_threads [] = (Inl DDS_RETCODE_ERROR, [], []) \<and>
   ddsrt_thread_list_qnx qnx_three_threads [0, 0] = (Inr 2, [1, 2], [])"
  by (simp add: qnx_three_threads_def ddsrt_thread_list_qnx_def Let_def dec_int_def dec.simps
      thread_list_qnx_loop.simps)

lemma thread_list_linux_example:
  "ddsrt_thread_list_linux cfg_linux (Some linux_three_threads) [] = (Inr 3, []) \<and>
   ddsrt_thread_list_linux cfg_linux (Some linux_three_threads) [0, 0, 0, 0] =
     (Inr 3, [811, 812, 815, 0])"
  by (simp add: linux_three_threads_def ddsrt_thread_list_linux_def is_dot_entry_def scan_ld_def
      long_saturate_def cfg_linux_def
      is_space_def is_digit_def digits_value_def Let_def)

lemma thread_list_apple_count:
  "fst (ddsrt_thread_list_apple (Some tasks) tids) = Inr (length tasks)"
  by (simp add: ddsrt_thread_list_apple_def)

subsection \<open>The name of a thread that is not there\<close>

lemma task_stat_file_length:
  assumes "long_bits cfg \<le> 64"
  shows "length (task_stat_file cfg tid) < 100"
proof -
  have "(2::int) ^ long_bits cfg \<le> 2 ^ 64"
    using assms by (intro power_increasing) simp_all
  moreover have "tid mod 2 ^ long_bits cfg < 2 ^ long_bits cfg"
    by simp
  ultimately have "tid mod 2 ^ long_bits cfg < 2 ^ 64"
    by (rule less_le_trans [rotated])
  then have "nat (tid mod 2 ^ long_bits cfg) < 2 ^ 64"
    by (simp add: nat_less_iff)
  from dec_length_64 [OF this] show ?thesis
    by (simp add: task_stat_file_def)
qed

lemma getname_linux_unfold:
  "ddsrt_thread_getname_anythread_linux cfg fs tid name =
     (if 100 \<le> length (task_stat_file cfg tid) then Inr (DDS_RETCODE_ERROR, name)
      else
        (case fs (task_stat_file cfg tid) of
           None \<Rightarrow> Inr (DDS_RETCODE_NOT_FOUND, name)
         | Some content \<Rightarrow>
             (case getname_loop (skip_to_paren content) 0 0 name of
                (namelen, name') \<Rightarrow>
                  if \<not> (length name = 0 \<or> namelen < length name) then Inl Assert_failed
                  else Inr (DDS_RETCODE_OK,
                            (if 0 < length name then name'[namelen := CHR 0x00] else name')))))"
  by (simp add: ddsrt_thread_getname_anythread_linux_def task_stat_file_def Let_def)

lemma getname_linux_not_found:
  assumes "long_bits cfg \<le> 64" and "fs (task_stat_file cfg tid) = None"
  shows "ddsrt_thread_getname_anythread_linux cfg fs tid name = Inr (DDS_RETCODE_NOT_FOUND, name)"
  using task_stat_file_length [OF assms(1), of tid] assms(2)
  by (simp add: getname_linux_unfold)

lemma getname_linux_never_error:
  assumes "long_bits cfg \<le> 64"
  shows "ddsrt_thread_getname_anythread_linux cfg fs tid name \<noteq> Inr (DDS_RETCODE_ERROR, x)"
  using task_stat_file_length [OF assms(1), of tid]
  by (simp add: getname_linux_unfold split: option.splits prod.splits)

text \<open>
  The assertion at the end of the Linux lookup cannot fail, so that the lookup always
  returns: with NOT_FOUND when the file cannot be opened and with OK otherwise.
\<close>

lemma getname_loop_bound:
  "namelen \<le> namepos \<Longrightarrow> namepos < length name \<Longrightarrow>
   getname_loop cs namelen namepos name = (namelen', name') \<Longrightarrow>
   namelen' < length name \<and> length name' = length name"
proof (induction cs arbitrary: namelen namepos name)
  case Nil
  then show ?case by simp
next
  case (Cons c cs)
  let ?nl = "if c = CHR '')'' then namepos else namelen"
  show ?case
  proof (cases "namepos + 1 < length name")
    case True
    with Cons.prems(3) have "getname_loop cs ?nl (namepos + 1) (name[namepos := c]) = (namelen', name')"
      by (simp add: Let_def)
    from Cons.IH [OF _ _ this] Cons.prems(1) True show ?thesis
      by (simp split: if_splits)
  next
    case False
    with Cons.prems(3) have "getname_loop cs ?nl namepos name = (namelen', name')"
      by (simp add: Let_def)
    from Cons.IH [OF _ _ this] Cons.prems(1,2) show ?thesis
      by (simp split: if_splits)
  qed
qed

lemma getname_linux_returns:
  assumes "long_bits cfg \<le> 64"
  shows "\<exists>rc name'. ddsrt_thread_getname_anythread_linux cfg fs tid name = Inr (rc, name') \<and>
           (rc = DDS_RETCODE_OK \<or> rc = DDS_RETCODE_NOT_FOUND) \<and>
           (rc = DDS_RETCODE_NOT_FOUND \<longleftrightarrow> fs (task_stat_file cfg tid) = None)"
proof (cases "fs (task_stat_file cfg tid)")
  case None
  with getname_linux_not_found [where cfg = cfg and fs = fs and tid = tid and name = name]
    assms show ?thesis
    by simp
next
  case (Some content)
  obtain namelen name' where loop: "getname_loop (skip_to_paren content) 0 0 name = (namelen, name')"
    by (cases "getname_loop (skip_to_paren content) 0 0 name")
  have "length name = 0 \<or> namelen < length name"
  proof (cases "length name = 0")
    case True
    then show ?thesis by simp
  next
    case False
    then have "0 < length name" by simp
    from getname_loop_bound [OF _ this loop] show ?thesis by simp
  qed
  with task_stat_file_length [OF assms, of tid] Some loop show ?thesis
    by (simp add: getname_linux_unfold)
qed

text \<open>
  Claim C9. The lookup of lines 579 to 610 (the Linux variant, with \<^verbatim>\<open>unsigned long\<close> of at
  most 64 bits) never returns ERROR, whatever the identifier and the file system; and
  for an identifier that refers to no live thread, so that its stat file cannot be
  opened (the thread never existed, or the file went away after the enumeration), it
  returns NOT_FOUND and leaves the buffer as it was.
\<close>

theorem getname_anythread_not_live:
  assumes "long_bits cfg \<le> 64"
  shows "ddsrt_thread_getname_anythread_linux cfg fs tid name \<noteq> Inr (DDS_RETCODE_ERROR, x) \<and>
         (fs (task_stat_file cfg tid) = None \<longrightarrow>
            ddsrt_thread_getname_anythread_linux cfg fs tid name =
              Inr (DDS_RETCODE_NOT_FOUND, name))"
  using getname_linux_never_error [OF assms]
    getname_linux_not_found [where cfg = cfg and fs = fs and tid = tid and name = name] assms
  by blast

theorem getname_anythread_not_live_witness:
  "ddsrt_thread_getname_anythread_linux cfg_linux fs_nothing 5 ''0123456789'' \<noteq>
     Inr (DDS_RETCODE_ERROR, ''0123456789'') \<and>
   ddsrt_thread_getname_anythread_linux cfg_linux fs_nothing 5 ''0123456789'' =
     Inr (DDS_RETCODE_NOT_FOUND, ''0123456789'')"
  using getname_anythread_not_live [where cfg = cfg_linux and fs = fs_nothing and tid = 5
      and name = "''0123456789''" and x = "''0123456789''"]
  by (simp add: cfg_linux_def fs_nothing_def)

text \<open>
  The variants of the lookup for QNX and macOS answer differently. On QNX (process
  identifiers of 32 bits) the answer follows the outcomes of \<^verbatim>\<open>open\<close> and \<^verbatim>\<open>devctl\<close>: NOT_FOUND
  when the address space file cannot be opened or \<^verbatim>\<open>devctl\<close> answers for another thread,
  NOT_ENOUGH_SPACE for a buffer larger than the room of the control structure, and
  ERROR when \<^verbatim>\<open>devctl\<close> fails. On macOS the answer is OK whatever the identifier, with a
  substitute name when no thread belongs to it.
\<close>

lemma getname_qnx_codes:
  assumes "\<bar>name_pid q\<bar> < 2 ^ 31"
  shows "ddsrt_thread_getname_anythread_qnx q tid sz =
           (if \<not> name_open_ok q then Inr (DDS_RETCODE_NOT_FOUND, None, [])
            else if name_buf_len q < sz then Inr (DDS_RETCODE_NOT_ENOUGH_SPACE, None, [])
            else if \<not> name_devctl_ok q
              then Inr (DDS_RETCODE_ERROR, None,
                        [DDS_ERROR ''devctl() failed for DCMD_PROC_THREADCTL''])
            else if devctl_tid q \<noteq> tid then Inr (DDS_RETCODE_NOT_FOUND, None, [])
            else if sz = 0 then Inl Bad_pointer
            else Inr (DDS_RETCODE_OK, Some (take (sz - 1) (devctl_name q)), []))"
proof -
  have "nat \<bar>name_pid q\<bar> < 2 ^ 64"
    using assms by (simp add: nat_less_iff)
  from dec_length_64 [OF this] have "length (dec_int (name_pid q)) \<le> 21"
    by (auto simp: dec_int_def abs_if split: if_splits)
  then have "\<not> 100 \<le> length (''/proc/'' @ dec_int (name_pid q) @ ''/as'')"
    by simp
  then show ?thesis
    unfolding ddsrt_thread_getname_anythread_qnx_def Let_def by simp
qed

lemma getname_qnx_example:
  "ddsrt_thread_getname_anythread_qnx qnx_other_thread 5 16 =
     Inr (DDS_RETCODE_NOT_FOUND, None, [])"
  by (simp add: getname_qnx_codes qnx_other_thread_def)

lemma getname_apple_always_ok:
  "fst (ddsrt_thread_getname_anythread_apple ap tid sz) = DDS_RETCODE_OK"
  by (simp add: ddsrt_thread_getname_anythread_apple_def)

lemma getname_apple_substitute_name:
  assumes "0 < sz" and "\<not> pthread_found ap"
  shows "ddsrt_thread_getname_anythread_apple ap tid sz =
           (DDS_RETCODE_OK, Some (take (sz - 1) (''task'' @ dec (nat (tid mod 2 ^ 64)))))"
  using assms by (simp add: ddsrt_thread_getname_anythread_apple_def)

lemma getname_apple_example:
  "\<not> pthread_found apple_no_thread \<and>
   ddsrt_thread_getname_anythread_apple apple_no_thread 12345 16 =
     (DDS_RETCODE_OK, Some ''task12345'')"
  by (simp add: apple_no_thread_def ddsrt_thread_getname_anythread_apple_def dec.simps
      digit_char_def)

end
